theory Spec2Isabelle
  imports Main "HOL-Library.Word" "HOL-Library.Code_Target_Numeral"
begin

section \<open>JavaScript containers\<close>

text \<open>
  A JavaScript \<^verbatim>\<open>Map\<close> iterates in insertion order, and \<^verbatim>\<open>set\<close> on a key that is
  present keeps the key's position: an association list. A \<^verbatim>\<open>Set\<close> of strings is a list
  without repetition, in insertion order. Deleting from a \<^verbatim>\<open>Map\<close> while a
  \<^verbatim>\<open>for ... of\<close> loop runs over it is allowed and every remaining entry is still visited,
  so such loops are filters.
\<close>

type_synonym ('k, 'v) jsmap = "('k \<times> 'v) list"

fun jsmap_get :: "('k, 'v) jsmap \<Rightarrow> 'k \<Rightarrow> 'v option" where
  "jsmap_get [] k = None"
| "jsmap_get ((k', v) # m) k = (if k' = k then Some v else jsmap_get m k)"

fun jsmap_set :: "('k, 'v) jsmap \<Rightarrow> 'k \<Rightarrow> 'v \<Rightarrow> ('k, 'v) jsmap" where
  "jsmap_set [] k v = [(k, v)]"
| "jsmap_set ((k', v') # m) k v =
     (if k' = k then (k, v) # m else (k', v') # jsmap_set m k v)"

definition jsmap_delete :: "('k, 'v) jsmap \<Rightarrow> 'k \<Rightarrow> ('k, 'v) jsmap" where
  "jsmap_delete m k = filter (\<lambda>kv. fst kv \<noteq> k) m"

definition jsmap_values :: "('k, 'v) jsmap \<Rightarrow> 'v list" where
  "jsmap_values m = map snd m"

definition jsset_add :: "'a list \<Rightarrow> 'a \<Rightarrow> 'a list" where
  "jsset_add xs x = (if x \<in> set xs then xs else xs @ [x])"

definition jsset_delete :: "'a list \<Rightarrow> 'a \<Rightarrow> 'a list" where
  "jsset_delete xs x = filter (\<lambda>y. y \<noteq> x) xs"

section \<open>Protocol types\<close>

type_synonym byte = "8 word"
type_synonym buffer = "byte list"

text \<open>
  \<^verbatim>\<open>FieldValue\<close> of \<^verbatim>\<open>protocol/types.ts\<close>. A JavaScript number is kept as the 64 bits of
  its IEEE 754 double, a \<^verbatim>\<open>bigint\<close> as an integer, a string as the list of its UTF-8
  bytes read as characters (so only well-formed Unicode strings are in the model), a
  \<^verbatim>\<open>Date\<close> as its time value in milliseconds (\<open>FInvalidDate\<close> is the date whose time
  value is NaN), an object as the list \<^verbatim>\<open>Object.entries\<close> gives.
\<close>

datatype fieldvalue =
    FNull
  | FUndefined
  | FBool bool
  | FNumber "64 word"
  | FBigInt int
  | FString string
  | FDate int
  | FInvalidDate
  | FBuffer buffer
  | FArray "fieldvalue list"
  | FTable "(string \<times> fieldvalue) list"

type_synonym fieldtable = "(string \<times> fieldvalue) list"

record properties =
  contentType :: "string option"
  contentEncoding :: "string option"
  headers :: "fieldtable option"
  deliveryMode :: "nat option"
  priority :: "nat option"
  correlationId :: "string option"
  replyTo :: "string option"
  expiration :: "string option"
  messageId :: "string option"
  timestamp :: "int option"
  msgType :: "string option"
  userId :: "string option"
  appId :: "string option"
  clusterId :: "string option"

definition no_properties :: properties where
  "no_properties = \<lparr> contentType = None, contentEncoding = None, headers = None,
     deliveryMode = None, priority = None, correlationId = None, replyTo = None,
     expiration = None, messageId = None, timestamp = None, msgType = None,
     userId = None, appId = None, clusterId = None \<rparr>"

text \<open>\<^verbatim>\<open>Message\<close> (\<^verbatim>\<open>protocol/types.ts\<close>).\<close>

record message =
  m_id :: string
  m_exchange :: string
  m_routingKey :: string
  m_mandatory :: bool
  m_immediate :: bool
  m_properties :: properties
  m_content :: buffer
  m_timestamp :: int

text \<open>
  Outgoing frames, as the connection records them once they are built. A method frame is
  kept as the channel, the class, the method and the arguments of the \<^verbatim>\<open>FrameBuilder\<close>
  call that builds its payload, a content header frame as channel, class, body size and
  properties, a body frame as channel and payload.
\<close>

datatype method_args =
    ChannelCloseArgs nat string nat nat
  | ChannelFlowOkArgs bool
  | BasicQosOkArgs
  | BasicGetEmptyArgs
  | BasicGetOkArgs nat bool string string nat
  | BasicDeliverArgs string nat bool string string
  | BasicReturnArgs nat string string string
  | BasicRecoverOkArgs
  | BasicConsumeOkArgs string
  | BasicCancelOkArgs string

datatype frame =
    MethodFrame nat nat nat method_args
  | ContentHeaderFrame nat nat nat properties
  | ContentBodyFrame nat buffer

text \<open>Constants of \<^verbatim>\<open>protocol/constants.ts\<close> that the modelled code uses.\<close>

definition CLASS_ID_CHANNEL :: nat where "CLASS_ID_CHANNEL = 20"
definition CLASS_ID_BASIC :: nat where "CLASS_ID_BASIC = 60"
definition CHANNEL_METHOD_FLOW_OK :: nat where "CHANNEL_METHOD_FLOW_OK = 21"
definition CHANNEL_METHOD_CLOSE :: nat where "CHANNEL_METHOD_CLOSE = 40"
definition BASIC_METHOD_QOS_OK :: nat where "BASIC_METHOD_QOS_OK = 11"
definition BASIC_METHOD_RETURN :: nat where "BASIC_METHOD_RETURN = 50"
definition BASIC_METHOD_DELIVER :: nat where "BASIC_METHOD_DELIVER = 60"
definition BASIC_METHOD_GET_OK :: nat where "BASIC_METHOD_GET_OK = 71"
definition BASIC_METHOD_GET_EMPTY :: nat where "BASIC_METHOD_GET_EMPTY = 72"
definition BASIC_METHOD_RECOVER_OK :: nat where "BASIC_METHOD_RECOVER_OK = 111"
definition REPLY_CODE_NO_CONSUMERS :: nat where "REPLY_CODE_NO_CONSUMERS = 313"
definition REPLY_CODE_NOT_FOUND :: nat where "REPLY_CODE_NOT_FOUND = 404"
definition REPLY_CODE_RESOURCE_LOCKED :: nat where "REPLY_CODE_RESOURCE_LOCKED = 405"

section \<open>Reading from and writing to a buffer\<close>

text \<open>
  The \<^verbatim>\<open>Buffer\<close> reads of Node.js that the parsers use. A read that does not lie within
  the buffer throws a \<^verbatim>\<open>RangeError\<close>. The other errors are the ones the codec throws
  itself.
\<close>

datatype js_error =
    RangeError
  | ShortStringTooLong
  | UnknownFieldType byte

definition be_nat :: "buffer \<Rightarrow> nat" where
  "be_nat bs = foldl (\<lambda>n b. 256 * n + unat b) 0 bs"

definition readUIntBE :: "nat \<Rightarrow> buffer \<Rightarrow> nat \<Rightarrow> js_error + nat" where
  "readUIntBE n buf offset =
     (if offset + n \<le> length buf then Inr (be_nat (take n (drop offset buf)))
      else Inl RangeError)"

definition readUInt8 :: "buffer \<Rightarrow> nat \<Rightarrow> js_error + nat" where
  "readUInt8 = readUIntBE 1"

definition readUInt16BE :: "buffer \<Rightarrow> nat \<Rightarrow> js_error + nat" where
  "readUInt16BE = readUIntBE 2"

definition readUInt32BE :: "buffer \<Rightarrow> nat \<Rightarrow> js_error + nat" where
  "readUInt32BE = readUIntBE 4"

text \<open>
  The big-endian writes, and the signed and 64-bit reads (the latter give a
  \<^verbatim>\<open>bigint\<close>). \<open>writeUIntBE n v\<close> is the bytes that a write of \<open>n\<close> bytes leaves for a
  value within its range; a signed value is written in two's complement.
  \<^verbatim>\<open>toString('utf8', start, end)\<close> and \<^verbatim>\<open>subarray(start, end)\<close> with \<open>start \<le> end\<close> cut
  the range down to the buffer instead of throwing. A string is the list of its UTF-8
  bytes, read as characters, so that \<^verbatim>\<open>Buffer.from(str, 'utf8')\<close> and \<^verbatim>\<open>toString\<close> keep the
  bytes; in what is proved below \<^verbatim>\<open>toString\<close> only meets bytes that an encoder wrote
  (on bytes that are not UTF-8 Node.js substitutes U+FFFD).
\<close>

fun writeUIntBE :: "nat \<Rightarrow> int \<Rightarrow> buffer" where
  "writeUIntBE 0 v = []"
| "writeUIntBE (Suc n) v = word_of_int (v div 256 ^ n) # writeUIntBE n (v mod 256 ^ n)"

definition writeIntBE :: "nat \<Rightarrow> int \<Rightarrow> buffer" where
  "writeIntBE n v = writeUIntBE n (v mod 256 ^ n)"

definition be_int :: "buffer \<Rightarrow> int" where
  "be_int bs = foldl (\<lambda>n b. 256 * n + uint b) 0 bs"

definition readBigUInt64BE :: "buffer \<Rightarrow> nat \<Rightarrow> js_error + int" where
  "readBigUInt64BE buf offset =
     (if offset + 8 \<le> length buf then Inr (be_int (take 8 (drop offset buf)))
      else Inl RangeError)"

definition on_read :: "js_error + 'a \<Rightarrow> ('a \<Rightarrow> 'b) \<Rightarrow> js_error + 'b" where
  "on_read r f = (case r of Inl e \<Rightarrow> Inl e | Inr x \<Rightarrow> Inr (f x))"

definition as_signed :: "nat \<Rightarrow> int \<Rightarrow> int" where
  "as_signed n u = (if 2 * u < 256 ^ n then u else u - 256 ^ n)"

definition readIntBE :: "nat \<Rightarrow> buffer \<Rightarrow> nat \<Rightarrow> js_error + int" where
  "readIntBE n buf offset = on_read (readUIntBE n buf offset) (\<lambda>u. as_signed n (int u))"

definition readBigInt64BE :: "buffer \<Rightarrow> nat \<Rightarrow> js_error + int" where
  "readBigInt64BE buf offset = on_read (readBigUInt64BE buf offset) (as_signed 8)"

definition buf_slice :: "buffer \<Rightarrow> nat \<Rightarrow> nat \<Rightarrow> buffer" where
  "buf_slice buf i j = take (j - i) (drop i buf)"

definition utf8_bytes :: "string \<Rightarrow> buffer" where
  "utf8_bytes s = map (\<lambda>c. word_of_int (of_char c)) s"

definition toString :: "buffer \<Rightarrow> nat \<Rightarrow> nat \<Rightarrow> string" where
  "toString buf i j = map (\<lambda>b. char_of (uint b)) (buf_slice buf i j)"

text \<open>
  \<^verbatim>\<open>writeUInt8\<close>, \<^verbatim>\<open>writeUInt16BE\<close>, \<^verbatim>\<open>writeUInt32BE\<close> and \<^verbatim>\<open>writeBigUInt64BE\<close>
  (\<open>n\<close> is 1, 2, 4 and 8): a value outside the range of the write throws a
  \<^verbatim>\<open>RangeError\<close>.
\<close>

definition writeUInt :: "nat \<Rightarrow> int \<Rightarrow> js_error + buffer" where
  "writeUInt n v = (if 0 \<le> v \<and> v < 256 ^ n then Inr (writeUIntBE n v) else Inl RangeError)"

text \<open>
  \<open>bind_ok r f\<close> goes on with \<open>f\<close> on what \<open>r\<close> returned and passes on what \<open>r\<close> threw.
  \<open>concat_parts\<close> is \<^verbatim>\<open>Buffer.concat(parts)\<close> for parts that are built in the order of the
  list, each by a call that may throw.
\<close>

definition bind_ok :: "js_error + 'a \<Rightarrow> ('a \<Rightarrow> js_error + 'b) \<Rightarrow> js_error + 'b" where
  "bind_ok r f = (case r of Inl e \<Rightarrow> Inl e | Inr x \<Rightarrow> f x)"

text \<open>
  The same for a call that may also never return (\<open>None\<close>): \<open>and_then r f\<close> goes on with
  \<open>f\<close> on what \<open>r\<close> returned, and passes on what \<open>r\<close> threw and that \<open>r\<close> never
  returned.
\<close>

definition and_then :: "('e + 'a) option \<Rightarrow> ('a \<Rightarrow> ('e + 'b) option) \<Rightarrow> ('e + 'b) option" where
  "and_then r f = (case r of None \<Rightarrow> None | Some (Inl e) \<Rightarrow> Some (Inl e) | Some (Inr x) \<Rightarrow> f x)"

fun concat_parts :: "(js_error + buffer) list \<Rightarrow> js_error + buffer" where
  "concat_parts [] = Inr []"
| "concat_parts (p # ps) = bind_ok p (\<lambda>b. bind_ok (concat_parts ps) (\<lambda>bs. Inr (b @ bs)))"

section \<open>The field-table codec\<close>

subsection \<open>Numbers\<close>

text \<open>
  A JavaScript number is an IEEE 754 double: one sign bit, eleven bits of exponent biased
  by 1023, 52 bits of fraction. \<open>double_of_ratio neg p q\<close> is the double nearest to the
  rational \<open>p / q\<close> (ties to even), negated when \<open>neg\<close> is set; it is used where the result
  is zero or lies in the normal range.
\<close>

function log2 :: "int \<Rightarrow> int" where
  "log2 n = (if n < 2 then 0 else 1 + log2 (n div 2))"
  by pat_completeness auto

termination
  by (relation "measure nat") auto

declare log2.simps [simp del]

definition round_half_even :: "int \<Rightarrow> int \<Rightarrow> int" where
  "round_half_even p q =
     (let d = p div q; r = p mod q
      in if 2 * r < q then d
         else if q < 2 * r then d + 1
         else if even d then d else d + 1)"

definition negative_zero :: "64 word" where
  "negative_zero = 0x8000000000000000"

definition canonical_nan :: "64 word" where
  "canonical_nan = 0x7FF8000000000000"

definition double_of_ratio :: "bool \<Rightarrow> int \<Rightarrow> int \<Rightarrow> 64 word" where
  "double_of_ratio neg p q =
     (if p = 0 then (if neg then negative_zero else 0)
      else
        let e0 = log2 p - log2 q;
            e = (if p * 2 ^ nat (- e0) < q * 2 ^ nat e0 then e0 - 1 else e0);
            m = round_half_even (p * 2 ^ nat (52 - e)) (q * 2 ^ nat (e - 52));
            e' = (if m = 2 ^ 53 then e + 1 else e);
            m' = (if m = 2 ^ 53 then 2 ^ 52 else m)
        in word_of_int ((if neg then 2 ^ 63 else 0) + (e' + 1023) * 2 ^ 52 + (m' - 2 ^ 52)))"

definition number_of_int :: "int \<Rightarrow> 64 word" where
  "number_of_int n = double_of_ratio (n < 0) \<bar>n\<bar> 1"

text \<open>
  The integer part of a double (towards zero); for an infinity or a NaN it is a value
  beyond every range that the codec tests.
\<close>

definition trunc_number :: "64 word \<Rightarrow> int" where
  "trunc_number w =
     (let u = uint w;
          e = nat ((u div 2 ^ 52) mod 2048);
          f = u mod 2 ^ 52;
          a = (if e = 0 then 0 else ((2 ^ 52 + f) * 2 ^ (e - 1075)) div 2 ^ (1075 - e))
      in if 2 ^ 63 \<le> u then - a else a)"

text \<open>
  \<^verbatim>\<open>Number.isInteger(value)\<close> together with the test
  \<^verbatim>\<open>value >= -2147483648 && value <= 2147483647\<close>: the number is the double of an integer
  of that range (or is \<open>-0\<close>, which is an integer and compares equal to 0), and then
  \<open>int32_of_number\<close> is that integer.
\<close>

definition int32_of_number :: "64 word \<Rightarrow> int option" where
  "int32_of_number w =
     (let n = trunc_number w
      in if - 2147483648 \<le> n \<and> n \<le> 2147483647 \<and> (number_of_int n = w \<or> w = negative_zero)
         then Some n else None)"

definition is_nan :: "64 word \<Rightarrow> bool" where
  "is_nan w = ((uint w div 2 ^ 52) mod 2048 = 2047 \<and> uint w mod 2 ^ 52 \<noteq> 0)"

text \<open>
  \<^verbatim>\<open>Math.pow(10, scale)\<close> as an integer: the power rounded to 53 significant bits
  (\<^verbatim>\<open>Math.pow\<close> is taken to be correctly rounded).
\<close>

definition pow10 :: "nat \<Rightarrow> int" where
  "pow10 scale =
     (let p = 10 ^ scale; k = nat (log2 p - 52)
      in if p < 2 ^ 53 then p else round_half_even p (2 ^ k) * 2 ^ k)"

text \<open>The double with the value of a 32-bit float.\<close>

definition double_of_float :: "int \<Rightarrow> 64 word" where
  "double_of_float u =
     (let neg = (2 ^ 31 \<le> u);
          e = (u div 2 ^ 23) mod 256;
          f = u mod 2 ^ 23;
          sign = (if neg then 2 ^ 63 else 0)
      in if e = 255 then (if f = 0 then word_of_int (sign + 2047 * 2 ^ 52) else canonical_nan)
         else if e = 0 then double_of_ratio neg f (2 ^ 149)
         else word_of_int (sign + (e + 896) * 2 ^ 52 + f * 2 ^ 29))"

subsection \<open>The encoder\<close>

definition encodeShortString :: "string \<Rightarrow> js_error + buffer" where
  "encodeShortString str =
     (let strBuffer = utf8_bytes str
      in if 255 < length strBuffer then Inl ShortStringTooLong
         else Inr (writeUIntBE 1 (int (length strBuffer)) @ strBuffer))"

text \<open>
  \<^verbatim>\<open>writeUInt32BE\<close> of a length throws a \<^verbatim>\<open>RangeError\<close> when the length does not fit
  32 bits.
\<close>

definition with_length :: "buffer \<Rightarrow> buffer \<Rightarrow> js_error + buffer" where
  "with_length tag content =
     (if int (length content) < 2 ^ 32 then Inr (tag @ writeUIntBE 4 (int (length content)) @ content)
      else Inl RangeError)"

text \<open>
  \<^verbatim>\<open>encodeFieldValue\<close> and \<^verbatim>\<open>encodeFieldTable\<close>. \<open>encodeValues\<close> is the \<^verbatim>\<open>map\<close> over
  the elements of an array, \<open>encodeEntries\<close> the loop over \<^verbatim>\<open>Object.entries(table)\<close>; both
  give the list \<^verbatim>\<open>parts\<close>, or the first error thrown. For a \<^verbatim>\<open>Date\<close>,
  \<^verbatim>\<open>Math.floor(value.getTime() / 1000)\<close> is the floor of the exact quotient (a time
  value is an integer of at most 8640000000000000 in magnitude, and the rounding of the
  quotient to a double does not reach the next integer); \<^verbatim>\<open>BigInt\<close> of NaN and \<^verbatim>\<open>writeBigUInt64BE\<close> of a negative value
  throw a \<^verbatim>\<open>RangeError\<close>, as does \<^verbatim>\<open>writeBigInt64BE\<close> outside 64 bits.
\<close>

fun encodeFieldValue :: "fieldvalue \<Rightarrow> js_error + buffer"
  and encodeValues :: "fieldvalue list \<Rightarrow> js_error + buffer list"
  and encodeEntries :: "(string \<times> fieldvalue) list \<Rightarrow> js_error + buffer list"
where
  "encodeFieldValue FNull = Inr [0x56]"
| "encodeFieldValue FUndefined = Inr [0x56]"
| "encodeFieldValue (FBool b) = Inr [0x74, if b then 1 else 0]"
| "encodeFieldValue (FNumber w) =
     (case int32_of_number w of
        Some n \<Rightarrow>
          if - 128 \<le> n \<and> n \<le> 127 then Inr (0x62 # writeIntBE 1 n)
          else if - 32768 \<le> n \<and> n \<le> 32767 then Inr (0x73 # writeIntBE 2 n)
          else Inr (0x49 # writeIntBE 4 n)
      | None \<Rightarrow> Inr (0x64 # writeUIntBE 8 (uint w)))"
| "encodeFieldValue (FBigInt i) =
     (if - (2 ^ 63) \<le> i \<and> i < 2 ^ 63 then Inr (0x6C # writeIntBE 8 i) else Inl RangeError)"
| "encodeFieldValue (FString s) = with_length [0x53] (utf8_bytes s)"
| "encodeFieldValue (FDate t) =
     (if 0 \<le> t div 1000 \<and> t div 1000 < 2 ^ 64
      then Inr (0x54 # writeUIntBE 8 (t div 1000)) else Inl RangeError)"
| "encodeFieldValue FInvalidDate = Inl RangeError"
| "encodeFieldValue (FBuffer b) = with_length [0x78] b"
| "encodeFieldValue (FArray vs) =
     (case encodeValues vs of
        Inl e \<Rightarrow> Inl e
      | Inr parts \<Rightarrow> with_length [0x41] (concat parts))"
| "encodeFieldValue (FTable t) =
     (case encodeEntries t of
        Inl e \<Rightarrow> Inl e
      | Inr parts \<Rightarrow>
         (case with_length [] (concat parts) of
            Inl e \<Rightarrow> Inl e
          | Inr tableBuffer \<Rightarrow> Inr (0x46 # tableBuffer)))"
| "encodeValues [] = Inr []"
| "encodeValues (v # vs) =
     (case encodeFieldValue v of
        Inl e \<Rightarrow> Inl e
      | Inr b \<Rightarrow> (case encodeValues vs of Inl e \<Rightarrow> Inl e | Inr parts \<Rightarrow> Inr (b # parts)))"
| "encodeEntries [] = Inr []"
| "encodeEntries (kv # t) =
     (case encodeShortString (fst kv) of
        Inl e \<Rightarrow> Inl e
      | Inr k \<Rightarrow>
         (case encodeFieldValue (snd kv) of
            Inl e \<Rightarrow> Inl e
          | Inr b \<Rightarrow>
             (case encodeEntries t of Inl e \<Rightarrow> Inl e | Inr parts \<Rightarrow> Inr (k # b # parts))))"

definition encodeFieldTable :: "fieldtable \<Rightarrow> js_error + buffer" where
  "encodeFieldTable t =
     (case encodeEntries t of
        Inl e \<Rightarrow> Inl e
      | Inr parts \<Rightarrow> with_length [] (concat parts))"


subsection \<open>The decoder\<close>

definition readShortString :: "buffer \<Rightarrow> nat \<Rightarrow> js_error + string \<times> nat" where
  "readShortString buf offset =
     (case readUInt8 buf offset of
        Inl e \<Rightarrow> Inl e
      | Inr len \<Rightarrow> Inr (toString buf (offset + 1) (offset + 1 + len), 1 + len))"

definition readLongString :: "buffer \<Rightarrow> nat \<Rightarrow> js_error + string \<times> nat" where
  "readLongString buf offset =
     (case readUInt32BE buf offset of
        Inl e \<Rightarrow> Inl e
      | Inr len \<Rightarrow> Inr (toString buf (offset + 4) (offset + 4 + len), 4 + len))"

text \<open>
  \<^verbatim>\<open>table[fieldName] = fieldValue\<close> on a plain object: an assignment to \<^verbatim>\<open>__proto__\<close>
  goes to the setter of \<^verbatim>\<open>Object.prototype\<close> and creates no property. The entries of
  the decoded object are kept in the order of their first assignment (JavaScript lists
  integer-like keys first).
\<close>

definition assign :: "fieldtable \<Rightarrow> string \<Rightarrow> fieldvalue \<Rightarrow> fieldtable" where
  "assign t k v = (if k = ''__proto__'' then t else jsmap_set t k v)"

text \<open>
  The cases of \<^verbatim>\<open>readFieldValue\<close> that read no nested value; \<open>pos\<close> is the offset after
  the type byte. For \<^verbatim>\<open>T\<close>, a count of seconds whose thousandfold exceeds
  8640000000000000 gives an invalid \<^verbatim>\<open>Date\<close> (below that bound the conversions to
  \<^verbatim>\<open>Number\<close> are exact).
\<close>

definition readScalar :: "nat \<Rightarrow> buffer \<Rightarrow> nat \<Rightarrow> js_error + fieldvalue \<times> nat" where
  "readScalar type buf pos =
     (if type = 0x74 then on_read (readUInt8 buf pos) (\<lambda>v. (FBool (v \<noteq> 0), 2))
      else if type = 0x62 then on_read (readIntBE 1 buf pos) (\<lambda>v. (FNumber (number_of_int v), 2))
      else if type = 0x42 then on_read (readUInt8 buf pos) (\<lambda>v. (FNumber (number_of_int (int v)), 2))
      else if type = 0x73 then on_read (readIntBE 2 buf pos) (\<lambda>v. (FNumber (number_of_int v), 3))
      else if type = 0x75 then on_read (readUInt16BE buf pos) (\<lambda>v. (FNumber (number_of_int (int v)), 3))
      else if type = 0x49 then on_read (readIntBE 4 buf pos) (\<lambda>v. (FNumber (number_of_int v), 5))
      else if type = 0x69 then on_read (readUInt32BE buf pos) (\<lambda>v. (FNumber (number_of_int (int v)), 5))
      else if type = 0x6C then on_read (readBigInt64BE buf pos) (\<lambda>v. (FBigInt v, 9))
      else if type = 0x66 then on_read (readUInt32BE buf pos) (\<lambda>v. (FNumber (double_of_float (int v)), 5))
      else if type = 0x64 then
        on_read (readBigUInt64BE buf pos)
          (\<lambda>v. (FNumber (if is_nan (word_of_int v) then canonical_nan else word_of_int v), 9))
      else if type = 0x44 then
        (case readUInt8 buf pos of
           Inl e \<Rightarrow> Inl e
         | Inr scale \<Rightarrow>
             on_read (readIntBE 4 buf (pos + 1))
               (\<lambda>unscaled. (FNumber (double_of_ratio (unscaled < 0) \<bar>unscaled\<bar> (pow10 scale)), 6)))
      else if type = 0x53 then on_read (readLongString buf pos) (\<lambda>(v, bytesRead). (FString v, 1 + bytesRead))
      else if type = 0x54 then
        on_read (readBigUInt64BE buf pos)
          (\<lambda>ts. (if ts * 1000 \<le> 8640000000000000 then FDate (ts * 1000) else FInvalidDate, 9))
      else if type = 0x56 then Inr (FNull, 1)
      else if type = 0x78 then
        on_read (readUInt32BE buf pos) (\<lambda>len. (FBuffer (buf_slice buf (pos + 4) (pos + 4 + len)), 1 + 4 + len))
      else Inl (UnknownFieldType (word_of_nat type)))"


text \<open>
  \<^verbatim>\<open>readFieldTable\<close> and \<^verbatim>\<open>readFieldValue\<close> with their two \<^verbatim>\<open>while\<close> loops. The first
  argument bounds the number of nested calls and loop rounds; \<open>None\<close> means that the
  bound was reached.
\<close>

function readFieldTable :: "nat \<Rightarrow> buffer \<Rightarrow> nat \<Rightarrow> (js_error + fieldtable \<times> nat) option"
  and tableLoop :: "nat \<Rightarrow> buffer \<Rightarrow> nat \<Rightarrow> nat \<Rightarrow> fieldtable \<Rightarrow> (js_error + fieldtable) option"
  and readFieldValue :: "nat \<Rightarrow> buffer \<Rightarrow> nat \<Rightarrow> (js_error + fieldvalue \<times> nat) option"
  and arrayLoop :: "nat \<Rightarrow> buffer \<Rightarrow> nat \<Rightarrow> nat \<Rightarrow> fieldvalue list \<Rightarrow> (js_error + fieldvalue list) option"
where
  "readFieldTable fuel buf offset =
     (case fuel of
        0 \<Rightarrow> None
      | Suc n \<Rightarrow>
          and_then (Some (readUInt32BE buf offset)) (\<lambda>tableLength.
          and_then (tableLoop n buf (offset + 4) (offset + 4 + tableLength) []) (\<lambda>table.
          Some (Inr (table, 4 + tableLength)))))"
| "tableLoop fuel buf pos endPos table =
     (case fuel of
        0 \<Rightarrow> None
      | Suc n \<Rightarrow>
          if pos < endPos then
            and_then (Some (readShortString buf pos)) (\<lambda>(fieldName, nameBytes).
            and_then (readFieldValue n buf (pos + nameBytes)) (\<lambda>(fieldValue, valueBytes).
            tableLoop n buf (pos + nameBytes + valueBytes) endPos (assign table fieldName fieldValue)))
          else Some (Inr table))"
| "readFieldValue fuel buf offset =
     (case fuel of
        0 \<Rightarrow> None
      | Suc n \<Rightarrow>
          and_then (Some (readUInt8 buf offset)) (\<lambda>type.
            if type = 0x41 then
              and_then (Some (readUInt32BE buf (offset + 1))) (\<lambda>arrayLength.
              and_then (arrayLoop n buf (offset + 1 + 4) (offset + 1 + 4 + arrayLength) []) (\<lambda>array.
              Some (Inr (FArray array, 1 + 4 + arrayLength))))
            else if type = 0x46 then
              and_then (readFieldTable n buf (offset + 1)) (\<lambda>(v, bytesRead).
              Some (Inr (FTable v, 1 + bytesRead)))
            else Some (readScalar type buf (offset + 1))))"
| "arrayLoop fuel buf arrayPos arrayEnd array =
     (case fuel of
        0 \<Rightarrow> None
      | Suc n \<Rightarrow>
          if arrayPos < arrayEnd then
            and_then (readFieldValue n buf arrayPos) (\<lambda>(v, bytesRead).
            arrayLoop n buf (arrayPos + bytesRead) arrayEnd (array @ [v]))
          else Some (Inr array))"
  by pat_completeness auto

termination
  by (relation "measure (case_sum (case_sum fst fst) (case_sum fst fst))") auto

declare readFieldTable.simps [simp del] tableLoop.simps [simp del]
  readFieldValue.simps [simp del] arrayLoop.simps [simp del]


subsection \<open>Tables that the round trip gives back\<close>








section \<open>Topic exchange: the direct pattern matcher\<close>

text \<open>
  \<^verbatim>\<open>src/routing/topic-exchange.ts\<close>, \<^verbatim>\<open>matchesPattern\<close>. Strings are lists of characters.
  \<^verbatim>\<open>s.split('.')\<close> never returns the empty array: the empty string splits into one
  empty word.
\<close>

fun js_split_dot :: "string \<Rightarrow> string list" where
  "js_split_dot [] = [[]]"
| "js_split_dot (c # cs) =
     (if c = CHR ''.'' then [] # js_split_dot cs
      else (case js_split_dot cs of
              [] \<Rightarrow> [[c]]
            | w # ws \<Rightarrow> (c # w) # ws))"

fun js_join_dot :: "string list \<Rightarrow> string" where
  "js_join_dot [] = []"
| "js_join_dot [w] = w"
| "js_join_dot (w # v # ws) = w @ CHR ''.'' # js_join_dot (v # ws)"

text \<open>
  The loop of \<^verbatim>\<open>matchesPattern\<close> over the indices \<^verbatim>\<open>ri\<close> and \<^verbatim>\<open>pi\<close>, on the
  remaining words \<^verbatim>\<open>routingWords.slice(ri)\<close> and \<^verbatim>\<open>patternWords.slice(pi)\<close>.
  \<open>hashLoop\<close> is the inner \<^verbatim>\<open>while (ri <= routingWords.length)\<close> entered at a
  \<^verbatim>\<open>#\<close> that is not the last pattern word; its second argument is
  \<^verbatim>\<open>patternWords.slice(pi + 1)\<close>, whose head is \<^verbatim>\<open>nextPatternWord\<close>. The source recurses
  through \<^verbatim>\<open>matchesPattern(routingWords.slice(ri).join('.'), patternWords.slice(pi + 1).join('.'))\<close>;
  both slices are non-empty there, and splitting the join of a non-empty list of
  dot-free words gives the list back (lemma \<open>js_split_join\<close> below), so the recursion is
  on the slices themselves.
\<close>

fun matchesWords :: "string list \<Rightarrow> string list \<Rightarrow> bool"
  and hashLoop :: "string list \<Rightarrow> string list \<Rightarrow> bool" where
  "matchesWords rs [] = (rs = [])"
| "matchesWords rs (p # ps) =
     (if p = ''#'' then (if ps = [] then True else hashLoop rs ps)
      else if p = ''*'' then
        (case rs of [] \<Rightarrow> False | r # rs' \<Rightarrow> matchesWords rs' ps)
      else
        (case rs of [] \<Rightarrow> False
         | r # rs' \<Rightarrow> if r \<noteq> p then False else matchesWords rs' ps))"
| "hashLoop [] ps = list_all (\<lambda>w. w = ''#'') ps"
| "hashLoop (r # rs') ps =
     (if (hd ps = ''*'' \<or> hd ps = ''#'' \<or> r = hd ps) \<and> matchesWords (r # rs') ps
      then True
      else hashLoop rs' ps)"

definition matchesPattern :: "string \<Rightarrow> string \<Rightarrow> bool" where
  "matchesPattern routingKey pattern =
     matchesWords (js_split_dot routingKey) (js_split_dot pattern)"

section \<open>Entities\<close>

text \<open>
  \<^verbatim>\<open>Queue\<close> (\<^verbatim>\<open>core/queue.ts\<close>). The \<^verbatim>\<open>arguments\<close> table and the creation time are
  left out: no modelled operation reads them.
\<close>

record queue =
  q_name :: string
  q_durable :: bool
  q_exclusive :: bool
  q_autoDelete :: bool
  exclusiveConnectionId :: "string option"
  messages :: "message list"
  consumerCount :: nat

definition enqueue :: "queue \<Rightarrow> message \<Rightarrow> queue" where
  "enqueue q m = q\<lparr>messages := messages q @ [m]\<rparr>"

text \<open>\<^verbatim>\<open>dequeue\<close> is \<^verbatim>\<open>messages.shift()\<close>: the head and the queue without it.\<close>

definition dequeue :: "queue \<Rightarrow> message option \<times> queue" where
  "dequeue q = (case messages q of
                  [] \<Rightarrow> (None, q)
                | m # ms \<Rightarrow> (Some m, q\<lparr>messages := ms\<rparr>))"

definition requeue :: "queue \<Rightarrow> message \<Rightarrow> bool \<Rightarrow> queue" where
  "requeue q m front =
     (if front then q\<lparr>messages := m # messages q\<rparr>
      else q\<lparr>messages := messages q @ [m]\<rparr>)"

definition getMessageCount :: "queue \<Rightarrow> nat" where
  "getMessageCount q = length (messages q)"

definition queue_addConsumer :: "queue \<Rightarrow> queue" where
  "queue_addConsumer q = q\<lparr>consumerCount := consumerCount q + 1\<rparr>"

definition queue_removeConsumer :: "queue \<Rightarrow> queue" where
  "queue_removeConsumer q = q\<lparr>consumerCount := consumerCount q - 1\<rparr>"

definition canAccess :: "queue \<Rightarrow> string \<Rightarrow> bool" where
  "canAccess q connectionId =
     (if \<not> q_exclusive q then True
      else exclusiveConnectionId q = Some connectionId)"

text \<open>\<^verbatim>\<open>Exchange\<close>; its type is the string the client declared it with.\<close>

record exchange =
  e_name :: string
  e_type :: string
  e_durable :: bool
  e_autoDelete :: bool
  e_internal :: bool
  isDefault :: bool

text \<open>\<^verbatim>\<open>Binding\<close> and \<^verbatim>\<open>BindingRegistry\<close> (\<^verbatim>\<open>core/binding.ts\<close>).\<close>

record binding =
  b_source :: string
  b_destination :: string
  b_routingKey :: string

definition binding_key :: "string \<Rightarrow> string \<Rightarrow> string \<Rightarrow> string" where
  "binding_key source destination routingKey =
     source @ '':'' @ destination @ '':'' @ routingKey"

record binding_registry =
  r_bindings :: "(string, binding) jsmap"
  bySource :: "(string, string list) jsmap"
  byDestination :: "(string, string list) jsmap"

definition index_add :: "(string, string list) jsmap \<Rightarrow> string \<Rightarrow> string \<Rightarrow> (string, string list) jsmap" where
  "index_add idx name key =
     (case jsmap_get idx name of
        None \<Rightarrow> jsmap_set idx name [key]
      | Some keys \<Rightarrow> jsmap_set idx name (jsset_add keys key))"

definition index_delete :: "(string, string list) jsmap \<Rightarrow> string \<Rightarrow> string \<Rightarrow> (string, string list) jsmap" where
  "index_delete idx name key =
     (case jsmap_get idx name of
        None \<Rightarrow> idx
      | Some keys \<Rightarrow>
          (let keys' = jsset_delete keys key
           in if length keys' = 0 then jsmap_delete idx name
              else jsmap_set idx name keys'))"

definition registry_add :: "binding_registry \<Rightarrow> binding \<Rightarrow> binding_registry" where
  "registry_add r b =
     (let key = binding_key (b_source b) (b_destination b) (b_routingKey b)
      in if jsmap_get (r_bindings r) key \<noteq> None then r
         else r\<lparr> r_bindings := jsmap_set (r_bindings r) key b,
                 bySource := index_add (bySource r) (b_source b) key,
                 byDestination := index_add (byDestination r) (b_destination b) key \<rparr>)"

definition registry_remove :: "binding_registry \<Rightarrow> string \<Rightarrow> string \<Rightarrow> string \<Rightarrow> binding_registry" where
  "registry_remove r source destination routingKey =
     (let key = binding_key source destination routingKey
      in case jsmap_get (r_bindings r) key of
           None \<Rightarrow> r
         | Some b \<Rightarrow>
             r\<lparr> r_bindings := jsmap_delete (r_bindings r) key,
                bySource := index_delete (bySource r) source key,
                byDestination := index_delete (byDestination r) destination key \<rparr>)"

definition lookup_keys :: "binding_registry \<Rightarrow> string list \<Rightarrow> binding list" where
  "lookup_keys r keys = List.map_filter (\<lambda>key. jsmap_get (r_bindings r) key) keys"

definition getBySource :: "binding_registry \<Rightarrow> string \<Rightarrow> binding list" where
  "getBySource r source =
     (case jsmap_get (bySource r) source of
        None \<Rightarrow> []
      | Some keys \<Rightarrow> lookup_keys r keys)"

definition getByDestination :: "binding_registry \<Rightarrow> string \<Rightarrow> binding list" where
  "getByDestination r destination =
     (case jsmap_get (byDestination r) destination of
        None \<Rightarrow> []
      | Some keys \<Rightarrow> lookup_keys r keys)"

definition removeByDestination :: "binding_registry \<Rightarrow> string \<Rightarrow> binding_registry" where
  "removeByDestination r destination =
     foldl (\<lambda>r' b. registry_remove r' (b_source b) (b_destination b) (b_routingKey b))
       r (getByDestination r destination)"

text \<open>
  \<^verbatim>\<open>Consumer\<close> and \<^verbatim>\<open>ConsumerRegistry\<close> (\<^verbatim>\<open>core/consumer.ts\<close>). A consumer holds a
  reference to its \<^verbatim>\<open>Channel\<close> object: \<open>c_channel\<close> is the address of that object in
  the store of channels of the broker state below.
\<close>

record consumer =
  consumerTag :: string
  c_queueName :: string
  noLocal :: bool
  noAck :: bool
  c_exclusive :: bool
  c_channel :: nat

record consumer_registry =
  cr_consumers :: "(string, consumer) jsmap"
  queueConsumers :: "(string, string list) jsmap"

definition consumers_add :: "consumer_registry \<Rightarrow> consumer \<Rightarrow> consumer_registry" where
  "consumers_add r c =
     r\<lparr> cr_consumers := jsmap_set (cr_consumers r) (consumerTag c) c,
        queueConsumers := index_add (queueConsumers r) (c_queueName c) (consumerTag c) \<rparr>"

definition consumers_remove :: "consumer_registry \<Rightarrow> string \<Rightarrow> consumer_registry" where
  "consumers_remove r tag =
     (case jsmap_get (cr_consumers r) tag of
        None \<Rightarrow> r
      | Some c \<Rightarrow>
          r\<lparr> cr_consumers := jsmap_delete (cr_consumers r) tag,
             queueConsumers := index_delete (queueConsumers r) (c_queueName c) tag \<rparr>)"

definition getByQueue :: "consumer_registry \<Rightarrow> string \<Rightarrow> consumer list" where
  "getByQueue r queueName =
     (case jsmap_get (queueConsumers r) queueName of
        None \<Rightarrow> []
      | Some tags \<Rightarrow> List.map_filter (\<lambda>tag. jsmap_get (cr_consumers r) tag) tags)"

text \<open>
  \<^verbatim>\<open>removeByChannel\<close>: the loop over the entries of the map removes exactly the entry it
  is at, so it visits the entries the map had when the loop started. The result is the
  list \<^verbatim>\<open>removed\<close> and the registry.
\<close>

definition removeByChannel :: "consumer_registry \<Rightarrow> nat \<Rightarrow> consumer list \<times> consumer_registry" where
  "removeByChannel r a =
     foldl (\<lambda>(removed, r') (tag, c).
              if c_channel c = a then (removed @ [c], consumers_remove r' tag)
              else (removed, r'))
       ([], r) (cr_consumers r)"

text \<open>
  \<^verbatim>\<open>Channel\<close> (\<^verbatim>\<open>core/channel.ts\<close>). Delivery tags are \<^verbatim>\<open>bigint\<close>s: natural numbers.
  \<^verbatim>\<open>deliveredAt\<close> of an unacked entry (the wall clock) is left out.
\<close>

datatype channel_state = ChOpening | ChOpen | ChClosing | ChClosed

record qos_settings =
  prefetchSize :: nat
  prefetchCount :: nat
  qos_global :: bool

record unacked =
  u_message :: message
  u_queueName :: string
  u_deliveryTag :: nat
  u_consumerTag :: string

record pending =
  p_exchange :: string
  p_routingKey :: string
  p_mandatory :: bool
  p_immediate :: bool
  p_properties :: properties
  bodySize :: nat
  bodyChunks :: "buffer list"
  receivedSize :: nat

record channel =
  channelNumber :: nat
  ch_connection :: string
  ch_state :: channel_state
  flowActive :: bool
  qos :: qos_settings
  deliveryTagCounter :: nat
  unackedMessages :: "(nat, unacked) jsmap"
  ch_consumers :: "(string, consumer) jsmap"
  consumerTagCounter :: nat
  pendingMessage :: "pending option"

definition setFlow :: "channel \<Rightarrow> bool \<Rightarrow> channel" where
  "setFlow ch active = ch\<lparr>flowActive := active\<rparr>"

definition setQoS :: "channel \<Rightarrow> nat \<Rightarrow> nat \<Rightarrow> bool \<Rightarrow> channel" where
  "setQoS ch ps pc g = ch\<lparr>qos := \<lparr>prefetchSize = ps, prefetchCount = pc, qos_global = g\<rparr>\<rparr>"

definition getUnackedCount :: "channel \<Rightarrow> nat" where
  "getUnackedCount ch = length (unackedMessages ch)"

definition canDeliver :: "channel \<Rightarrow> bool" where
  "canDeliver ch =
     (if prefetchCount (qos ch) = 0 then True
      else length (unackedMessages ch) < prefetchCount (qos ch))"

definition nextDeliveryTag :: "channel \<Rightarrow> nat \<times> channel" where
  "nextDeliveryTag ch =
     (deliveryTagCounter ch + 1, ch\<lparr>deliveryTagCounter := deliveryTagCounter ch + 1\<rparr>)"

definition trackUnacked :: "channel \<Rightarrow> nat \<Rightarrow> message \<Rightarrow> string \<Rightarrow> string \<Rightarrow> channel" where
  "trackUnacked ch deliveryTag msg queueName ctag =
     ch\<lparr>unackedMessages := jsmap_set (unackedMessages ch) deliveryTag
          \<lparr>u_message = msg, u_queueName = queueName, u_deliveryTag = deliveryTag,
           u_consumerTag = ctag\<rparr>\<rparr>"

definition ack :: "channel \<Rightarrow> nat \<Rightarrow> bool \<Rightarrow> unacked list \<times> channel" where
  "ack ch deliveryTag multiple =
     (if multiple then
        (map snd (filter (\<lambda>tu. fst tu \<le> deliveryTag) (unackedMessages ch)),
         ch\<lparr>unackedMessages := filter (\<lambda>tu. \<not> fst tu \<le> deliveryTag) (unackedMessages ch)\<rparr>)
      else
        (case jsmap_get (unackedMessages ch) deliveryTag of
           None \<Rightarrow> ([], ch)
         | Some u \<Rightarrow> ([u], ch\<lparr>unackedMessages := jsmap_delete (unackedMessages ch) deliveryTag\<rparr>)))"

definition nack :: "channel \<Rightarrow> nat \<Rightarrow> bool \<Rightarrow> unacked list \<times> channel" where
  "nack ch deliveryTag multiple = ack ch deliveryTag multiple"

definition reject :: "channel \<Rightarrow> nat \<Rightarrow> unacked option \<times> channel" where
  "reject ch deliveryTag =
     (case jsmap_get (unackedMessages ch) deliveryTag of
        None \<Rightarrow> (None, ch)
      | Some u \<Rightarrow> (Some u, ch\<lparr>unackedMessages := jsmap_delete (unackedMessages ch) deliveryTag\<rparr>))"

definition getUnackedMessages :: "channel \<Rightarrow> unacked list" where
  "getUnackedMessages ch = jsmap_values (unackedMessages ch)"

definition getConsumers :: "channel \<Rightarrow> consumer list" where
  "getConsumers ch = jsmap_values (ch_consumers ch)"

text \<open>\<^verbatim>\<open>appendBodyChunk\<close>: whether the body is complete, and the channel.\<close>

definition appendBodyChunk :: "channel \<Rightarrow> buffer \<Rightarrow> bool \<times> channel" where
  "appendBodyChunk ch chunk =
     (case pendingMessage ch of
        None \<Rightarrow> (False, ch)
      | Some p \<Rightarrow>
          (let p' = p\<lparr>bodyChunks := bodyChunks p @ [chunk],
                       receivedSize := receivedSize p + length chunk\<rparr>
           in (receivedSize p' \<ge> bodySize p', ch\<lparr>pendingMessage := Some p'\<rparr>)))"

text \<open>
  \<^verbatim>\<open>Connection\<close> (\<^verbatim>\<open>core/connection.ts\<close>). \<open>channels\<close> maps a channel number to the
  address of the \<^verbatim>\<open>Channel\<close> object; \<open>sent\<close> is what was written to the socket. The
  negotiated values are JavaScript numbers. The heartbeat timer, the client properties
  and the virtual host are left out.
\<close>

datatype connection_state =
    ConnAwaitingHeader | ConnAwaitingStartOk | ConnAwaitingTuneOk | ConnAwaitingOpen
  | ConnOpen | ConnClosing | ConnClosed

record connection =
  conn_id :: string
  conn_state :: connection_state
  channels :: "(nat, nat) jsmap"
  channelMax :: int
  frameMax :: int
  heartbeat :: int
  lastHeartbeat :: int
  socketDestroyed :: bool
  socketEnded :: bool
  sent :: "frame list"

record broker_options =
  o_channelMax :: int
  o_frameMax :: int
  o_heartbeat :: int

section \<open>The broker\<close>

text \<open>
  The state of \<^verbatim>\<open>DeepMQBroker\<close> (\<^verbatim>\<open>server.ts\<close>). \<^verbatim>\<open>Connection\<close> and \<^verbatim>\<open>Channel\<close> objects
  are shared (a consumer refers to its channel, a channel to its connection) and outlive
  their entries in the maps, so they live in two stores: \<open>connHeap\<close> from connection ids
  (unique, never reused) and \<open>chanHeap\<close> from addresses. \<open>connections\<close> holds the keys of
  the map of connections. The \<^verbatim>\<open>MessageStore\<close> is kept as the log it appends to.
  \<open>immediates\<close> holds the callbacks \<^verbatim>\<open>setImmediate(() => this.deliverToConsumer(consumer))\<close>
  has scheduled and that have not run yet.

  Handlers are \<^verbatim>\<open>async\<close>; the model runs each of them to its end without interleaving
  another one at an \<^verbatim>\<open>await\<close>. The typed event emitter has no subscriber in the broker
  itself and is left out, as are the events \<^verbatim>\<open>closing\<close> of a channel and
  \<^verbatim>\<open>heartbeatTimeout\<close> of a connection, which nothing listens to. Writes of the
  \<^verbatim>\<open>MessageStore\<close> are taken to succeed.
\<close>

datatype log_entry =
    LogMessage string string message
  | LogDelete string string

record broker =
  options :: broker_options
  connections :: "string list"
  connHeap :: "string \<Rightarrow> connection"
  chanHeap :: "nat \<Rightarrow> channel"
  exchanges :: "(string, exchange) jsmap"
  queues :: "(string, queue) jsmap"
  bindings :: binding_registry
  consumers :: consumer_registry
  store_log :: "log_entry list"
  immediates :: "consumer list"

definition saveMessage :: "broker \<Rightarrow> string \<Rightarrow> message \<Rightarrow> broker" where
  "saveMessage s queueName m = s\<lparr>store_log := store_log s @ [LogMessage queueName (m_id m) m]\<rparr>"

definition deleteMessage :: "broker \<Rightarrow> string \<Rightarrow> string \<Rightarrow> broker" where
  "deleteMessage s queueName mid = s\<lparr>store_log := store_log s @ [LogDelete queueName mid]\<rparr>"

text \<open>\<^verbatim>\<open>Connection.send\<close>: nothing is written to a destroyed socket or a closed connection.\<close>

definition send :: "broker \<Rightarrow> string \<Rightarrow> frame \<Rightarrow> broker" where
  "send s cid f =
     (let c = connHeap s cid
      in if socketDestroyed c \<or> conn_state c = ConnClosed then s
         else s\<lparr>connHeap := (connHeap s)(cid := c\<lparr>sent := sent c @ [f]\<rparr>)\<rparr>)"

definition sendAll :: "broker \<Rightarrow> string \<Rightarrow> frame list \<Rightarrow> broker" where
  "sendAll s cid fs = foldl (\<lambda>s' f. send s' cid f) s fs"


subsection \<open>Building frames\<close>

text \<open>
  \<^verbatim>\<open>FrameBuilder.buildFrame\<close> and \<^verbatim>\<open>buildMethodFrame\<close>, to the byte. They throw where one
  of their writes throws: a channel number above 65535, a payload of \<open>2\<^sup>3\<^sup>2\<close> bytes or more.
\<close>

definition FRAME_TYPE_METHOD :: nat where "FRAME_TYPE_METHOD = 1"
definition FRAME_TYPE_HEADER :: nat where "FRAME_TYPE_HEADER = 2"
definition FRAME_TYPE_BODY :: nat where "FRAME_TYPE_BODY = 3"
definition FRAME_END :: nat where "FRAME_END = 206"
definition REPLY_CODE_ACCESS_REFUSED :: nat where "REPLY_CODE_ACCESS_REFUSED = 403"
definition BASIC_METHOD_CONSUME_OK :: nat where "BASIC_METHOD_CONSUME_OK = 21"
definition BASIC_METHOD_CANCEL_OK :: nat where "BASIC_METHOD_CANCEL_OK = 31"

definition buildFrame :: "nat \<Rightarrow> nat \<Rightarrow> buffer \<Rightarrow> js_error + buffer" where
  "buildFrame type channel payload =
     concat_parts [writeUInt 1 (int type), writeUInt 2 (int channel),
       writeUInt 4 (int (length payload)), Inr payload, writeUInt 1 (int FRAME_END)]"

definition buildMethodFrame :: "nat \<Rightarrow> nat \<Rightarrow> nat \<Rightarrow> buffer \<Rightarrow> js_error + buffer" where
  "buildMethodFrame channel classId methodId argsBuffer =
     bind_ok (concat_parts [writeUInt 2 (int classId), writeUInt 2 (int methodId), Inr argsBuffer])
       (buildFrame FRAME_TYPE_METHOD channel)"

text \<open>The builders of method arguments of \<^verbatim>\<open>FrameBuilder\<close> that the modelled code calls.\<close>

definition buildChannelClose :: "nat \<Rightarrow> string \<Rightarrow> nat \<Rightarrow> nat \<Rightarrow> js_error + buffer" where
  "buildChannelClose replyCode replyText classId methodId =
     concat_parts [writeUInt 2 (int replyCode), encodeShortString replyText,
       writeUInt 2 (int classId), writeUInt 2 (int methodId)]"

definition buildChannelFlowOk :: "bool \<Rightarrow> js_error + buffer" where
  "buildChannelFlowOk active = writeUInt 1 (if active then 1 else 0)"

definition buildBasicQosOk :: "js_error + buffer" where
  "buildBasicQosOk = Inr []"

definition buildBasicConsumeOk :: "string \<Rightarrow> js_error + buffer" where
  "buildBasicConsumeOk ctag = encodeShortString ctag"

definition buildBasicCancelOk :: "string \<Rightarrow> js_error + buffer" where
  "buildBasicCancelOk ctag = encodeShortString ctag"

definition buildBasicDeliver :: "string \<Rightarrow> nat \<Rightarrow> bool \<Rightarrow> string \<Rightarrow> string \<Rightarrow> js_error + buffer" where
  "buildBasicDeliver ctag deliveryTag redelivered exchange routingKey =
     concat_parts [encodeShortString ctag, writeUInt 8 (int deliveryTag),
       writeUInt 1 (if redelivered then 1 else 0), encodeShortString exchange,
       encodeShortString routingKey]"

definition buildBasicGetOk :: "nat \<Rightarrow> bool \<Rightarrow> string \<Rightarrow> string \<Rightarrow> nat \<Rightarrow> js_error + buffer" where
  "buildBasicGetOk deliveryTag redelivered exchange routingKey messageCount =
     concat_parts [writeUInt 8 (int deliveryTag), writeUInt 1 (if redelivered then 1 else 0),
       encodeShortString exchange, encodeShortString routingKey,
       writeUInt 4 (int messageCount)]"

definition buildBasicGetEmpty :: "js_error + buffer" where
  "buildBasicGetEmpty = encodeShortString []"

definition buildBasicReturn :: "nat \<Rightarrow> string \<Rightarrow> string \<Rightarrow> string \<Rightarrow> js_error + buffer" where
  "buildBasicReturn replyCode replyText exchange routingKey =
     concat_parts [writeUInt 2 (int replyCode), encodeShortString replyText,
       encodeShortString exchange, encodeShortString routingKey]"

definition buildBasicRecoverOk :: "js_error + buffer" where
  "buildBasicRecoverOk = Inr []"

text \<open>
  The frame builders of \<^verbatim>\<open>protocol/methods\<close>: the arguments are built first, then the
  method frame around them. What the model keeps of a frame that was built is the call
  that built it (\<open>method_args\<close>); a builder that throws gives the error.
\<close>

definition method_frame ::
  "nat \<Rightarrow> nat \<Rightarrow> nat \<Rightarrow> js_error + buffer \<Rightarrow> method_args \<Rightarrow> js_error + frame" where
  "method_frame channel classId methodId argsBuffer args =
     bind_ok argsBuffer (\<lambda>b.
     bind_ok (buildMethodFrame channel classId methodId b) (\<lambda>bytes.
     Inr (MethodFrame channel classId methodId args)))"

definition buildChannelCloseFrame :: "nat \<Rightarrow> nat \<Rightarrow> string \<Rightarrow> nat \<Rightarrow> nat \<Rightarrow> js_error + frame" where
  "buildChannelCloseFrame channel replyCode replyText classId methodId =
     method_frame channel CLASS_ID_CHANNEL CHANNEL_METHOD_CLOSE
       (buildChannelClose replyCode replyText classId methodId)
       (ChannelCloseArgs replyCode replyText classId methodId)"

definition buildChannelFlowOkFrame :: "nat \<Rightarrow> bool \<Rightarrow> js_error + frame" where
  "buildChannelFlowOkFrame channel active =
     method_frame channel CLASS_ID_CHANNEL CHANNEL_METHOD_FLOW_OK
       (buildChannelFlowOk active) (ChannelFlowOkArgs active)"

definition buildBasicQosOkFrame :: "nat \<Rightarrow> js_error + frame" where
  "buildBasicQosOkFrame channel =
     method_frame channel CLASS_ID_BASIC BASIC_METHOD_QOS_OK buildBasicQosOk BasicQosOkArgs"

definition buildBasicConsumeOkFrame :: "nat \<Rightarrow> string \<Rightarrow> js_error + frame" where
  "buildBasicConsumeOkFrame channel ctag =
     method_frame channel CLASS_ID_BASIC BASIC_METHOD_CONSUME_OK
       (buildBasicConsumeOk ctag) (BasicConsumeOkArgs ctag)"

definition buildBasicCancelOkFrame :: "nat \<Rightarrow> string \<Rightarrow> js_error + frame" where
  "buildBasicCancelOkFrame channel ctag =
     method_frame channel CLASS_ID_BASIC BASIC_METHOD_CANCEL_OK
       (buildBasicCancelOk ctag) (BasicCancelOkArgs ctag)"

definition buildBasicDeliverFrame ::
  "nat \<Rightarrow> string \<Rightarrow> nat \<Rightarrow> bool \<Rightarrow> string \<Rightarrow> string \<Rightarrow> js_error + frame" where
  "buildBasicDeliverFrame channel ctag deliveryTag redelivered exchange routingKey =
     method_frame channel CLASS_ID_BASIC BASIC_METHOD_DELIVER
       (buildBasicDeliver ctag deliveryTag redelivered exchange routingKey)
       (BasicDeliverArgs ctag deliveryTag redelivered exchange routingKey)"

definition buildBasicGetOkFrame ::
  "nat \<Rightarrow> nat \<Rightarrow> bool \<Rightarrow> string \<Rightarrow> string \<Rightarrow> nat \<Rightarrow> js_error + frame" where
  "buildBasicGetOkFrame channel deliveryTag redelivered exchange routingKey messageCount =
     method_frame channel CLASS_ID_BASIC BASIC_METHOD_GET_OK
       (buildBasicGetOk deliveryTag redelivered exchange routingKey messageCount)
       (BasicGetOkArgs deliveryTag redelivered exchange routingKey messageCount)"

definition buildBasicGetEmptyFrame :: "nat \<Rightarrow> js_error + frame" where
  "buildBasicGetEmptyFrame channel =
     method_frame channel CLASS_ID_BASIC BASIC_METHOD_GET_EMPTY buildBasicGetEmpty
       BasicGetEmptyArgs"

definition buildBasicReturnFrame ::
  "nat \<Rightarrow> nat \<Rightarrow> string \<Rightarrow> string \<Rightarrow> string \<Rightarrow> js_error + frame" where
  "buildBasicReturnFrame channel replyCode replyText exchange routingKey =
     method_frame channel CLASS_ID_BASIC BASIC_METHOD_RETURN
       (buildBasicReturn replyCode replyText exchange routingKey)
       (BasicReturnArgs replyCode replyText exchange routingKey)"

definition buildBasicRecoverOkFrame :: "nat \<Rightarrow> js_error + frame" where
  "buildBasicRecoverOkFrame channel =
     method_frame channel CLASS_ID_BASIC BASIC_METHOD_RECOVER_OK buildBasicRecoverOk
       BasicRecoverOkArgs"

subsection \<open>Content frames\<close>

text \<open>
  \<^verbatim>\<open>FrameBuilder.encodeProperties\<close>: the properties that are set, in the order of the
  source, each with its flag; \<^verbatim>\<open>flags\<close> is the sum of the flags (they are distinct
  bits). A short string above 255 bytes, a delivery mode or priority above 255, a
  timestamp outside 64 bits and a header table that cannot be encoded throw.
\<close>

definition property :: "nat \<Rightarrow> 'a option \<Rightarrow> ('a \<Rightarrow> js_error + buffer) \<Rightarrow> (nat \<times> (js_error + buffer)) list" where
  "property flag v enc = (case v of None \<Rightarrow> [] | Some x \<Rightarrow> [(flag, enc x)])"

definition encodeProperties :: "properties \<Rightarrow> js_error + nat \<times> buffer" where
  "encodeProperties p =
     (let fields =
            property 0x8000 (contentType p) encodeShortString
          @ property 0x4000 (contentEncoding p) encodeShortString
          @ property 0x2000 (headers p) encodeFieldTable
          @ property 0x1000 (deliveryMode p) (\<lambda>v. writeUInt 1 (int v))
          @ property 0x0800 (priority p) (\<lambda>v. writeUInt 1 (int v))
          @ property 0x0400 (correlationId p) encodeShortString
          @ property 0x0200 (replyTo p) encodeShortString
          @ property 0x0100 (expiration p) encodeShortString
          @ property 0x0080 (messageId p) encodeShortString
          @ property 0x0040 (timestamp p) (writeUInt 8)
          @ property 0x0020 (msgType p) encodeShortString
          @ property 0x0010 (userId p) encodeShortString
          @ property 0x0008 (appId p) encodeShortString
          @ property 0x0004 (clusterId p) encodeShortString
      in bind_ok (concat_parts (map snd fields)) (\<lambda>propertiesBuffer.
         Inr (sum_list (map fst fields), propertiesBuffer)))"

definition buildContentHeaderFrame :: "nat \<Rightarrow> nat \<Rightarrow> nat \<Rightarrow> properties \<Rightarrow> js_error + frame" where
  "buildContentHeaderFrame channel classId bodySize' props =
     bind_ok (encodeProperties props) (\<lambda>(flags, propertiesBuffer).
     bind_ok (concat_parts [writeUInt 2 (int classId), writeUInt 2 0,
                writeUInt 8 (int bodySize'), writeUInt 2 (int flags), Inr propertiesBuffer])
       (\<lambda>payload.
     bind_ok (buildFrame FRAME_TYPE_HEADER channel payload) (\<lambda>bytes.
     Inr (ContentHeaderFrame channel classId bodySize' props))))"


text \<open>
  \<^verbatim>\<open>Buffer.subarray(start, end)\<close>: a negative index counts from the end, and both indices
  are clamped to the buffer.
\<close>

definition clamp_index :: "nat \<Rightarrow> int \<Rightarrow> nat" where
  "clamp_index len i = (if i < 0 then nat (max (int len + i) 0) else min (nat i) len)"

definition subarray :: "buffer \<Rightarrow> int \<Rightarrow> int \<Rightarrow> buffer" where
  "subarray b i j =
     take (clamp_index (length b) j - clamp_index (length b) i)
       (drop (clamp_index (length b) i) b)"

text \<open>
  \<^verbatim>\<open>FrameBuilder.buildContentBodyFrames\<close>: the loop
  \<^verbatim>\<open>while (offset < body.length)\<close> with \<^verbatim>\<open>chunkSize = Math.min(body.length - offset, maxPayloadSize)\<close>.
  Nothing in the source bounds \<^verbatim>\<open>frameMax\<close> from below, so the loop need not end:
  \<open>None\<close> is the loop that never returns.
\<close>

partial_function (option) bodyFramesLoop ::
  "nat \<Rightarrow> buffer \<Rightarrow> int \<Rightarrow> int \<Rightarrow> frame list \<Rightarrow> (js_error + frame list) option" where
  "bodyFramesLoop channel body maxPayloadSize offset frames =
     (if offset < int (length body) then
        (case buildFrame FRAME_TYPE_BODY channel
                (subarray body offset (offset + min (int (length body) - offset) maxPayloadSize)) of
           Inl e \<Rightarrow> Some (Inl e)
         | Inr bytes \<Rightarrow>
             bodyFramesLoop channel body maxPayloadSize
               (offset + min (int (length body) - offset) maxPayloadSize)
               (frames @ [ContentBodyFrame channel
                  (subarray body offset (offset + min (int (length body) - offset) maxPayloadSize))]))
      else Some (Inr frames))"

declare bodyFramesLoop.simps [code]

definition buildContentBodyFrames :: "nat \<Rightarrow> buffer \<Rightarrow> int \<Rightarrow> (js_error + frame list) option" where
  "buildContentBodyFrames channel body frameMax' =
     bodyFramesLoop channel body (frameMax' - 8) 0 []"

definition buildMessageFrames ::
  "nat \<Rightarrow> buffer \<Rightarrow> properties \<Rightarrow> int \<Rightarrow> (js_error + frame list) option" where
  "buildMessageFrames channel content props frameMax' =
     and_then (Some (buildContentHeaderFrame channel CLASS_ID_BASIC (length content) props))
       (\<lambda>header.
     and_then (buildContentBodyFrames channel content frameMax') (\<lambda>bodyFrames.
     Some (Inr (header # bodyFrames))))"

text \<open>The payloads of the body frames of a list of frames, in order.\<close>

fun body_payloads :: "frame list \<Rightarrow> buffer list" where
  "body_payloads [] = []"
| "body_payloads (ContentBodyFrame ch p # fs) = p # body_payloads fs"
| "body_payloads (f # fs) = body_payloads fs"

subsection \<open>Calls that throw\<close>

text \<open>
  What a call of the broker comes to: \<open>None\<close> when it never returns, \<open>Some (Inl (e, s))\<close>
  when it throws \<open>e\<close>, in the state \<open>s\<close> that it has reached by then, and \<open>Some (Inr s)\<close>
  when it returns in the state \<open>s\<close>. No handler of the broker catches; what is thrown
  reaches the \<^verbatim>\<open>catch\<close> of the listener for \<^verbatim>\<open>data\<close> of the socket, or nothing at all from
  a callback of \<^verbatim>\<open>setImmediate\<close>. \<open>returned\<close> is the state of a call that returned,
  \<open>state_of\<close> the state that a call returned or threw in.
\<close>

type_synonym outcome = "(js_error \<times> broker + broker) option"

definition returned :: "outcome \<Rightarrow> broker option" where
  "returned r = (case r of None \<Rightarrow> None | Some (Inl x) \<Rightarrow> None | Some (Inr s) \<Rightarrow> Some s)"

definition state_of :: "js_error \<times> broker + broker \<Rightarrow> broker" where
  "state_of r = (case r of Inl (e, s) \<Rightarrow> s | Inr s \<Rightarrow> s)"

text \<open>
  \<^verbatim>\<open>connection.send(build(...))\<close>: the frame is built before anything is sent.
\<close>

definition sendBuilt :: "broker \<Rightarrow> string \<Rightarrow> js_error + frame \<Rightarrow> outcome" where
  "sendBuilt s cid built =
     (case built of Inl e \<Rightarrow> Some (Inl (e, s)) | Inr f \<Rightarrow> Some (Inr (send s cid f)))"

definition closeChannelWithError :: "broker \<Rightarrow> string \<Rightarrow> nat \<Rightarrow> nat \<Rightarrow> string \<Rightarrow> outcome" where
  "closeChannelWithError s cid channelNum replyCode replyText =
     sendBuilt s cid (buildChannelCloseFrame channelNum replyCode replyText 0 0)"

text \<open>
  \<^verbatim>\<open>const contentFrames = buildMessageFrames(...); for (const frame of contentFrames)
  connection.send(frame);\<close>
\<close>

definition sendMessageFrames ::
  "broker \<Rightarrow> string \<Rightarrow> nat \<Rightarrow> buffer \<Rightarrow> properties \<Rightarrow> outcome" where
  "sendMessageFrames s cid channel content props =
     (case buildMessageFrames channel content props (frameMax (connHeap s cid)) of
        None \<Rightarrow> None
      | Some (Inl e) \<Rightarrow> Some (Inl (e, s))
      | Some (Inr contentFrames) \<Rightarrow> Some (Inr (sendAll s cid contentFrames)))"

subsection \<open>Dispatch to a consumer\<close>

definition canReceive :: "broker \<Rightarrow> consumer \<Rightarrow> bool" where
  "canReceive s c =
     (if \<not> flowActive (chanHeap s (c_channel c)) then False
      else canDeliver (chanHeap s (c_channel c)))"

text \<open>
  \<^verbatim>\<open>deliverToConsumer\<close>. \<open>s1\<close> is the state after \<^verbatim>\<open>queue.dequeue()\<close>, \<open>s2\<close> after the
  delivery tag is taken and the entry tracked, \<open>s3\<close> after \<^verbatim>\<open>Basic.Deliver\<close> is sent, \<open>s4\<close>
  after the content frames are sent.
\<close>

definition deliverToConsumer :: "broker \<Rightarrow> consumer \<Rightarrow> outcome" where
  "deliverToConsumer s c =
     (if \<not> canReceive s c then Some (Inr s)
      else case jsmap_get (queues s) (c_queueName c) of
        None \<Rightarrow> Some (Inr s)
      | Some q \<Rightarrow>
         (case dequeue q of
            (None, _) \<Rightarrow> Some (Inr s)
          | (Some msg, q') \<Rightarrow>
             (let s1 = s\<lparr>queues := jsmap_set (queues s) (c_queueName c) q'\<rparr>;
                  a = c_channel c;
                  cid = ch_connection (chanHeap s1 a);
                  (deliveryTag, ch1) = nextDeliveryTag (chanHeap s1 a);
                  ch2 = (if \<not> noAck c
                         then trackUnacked ch1 deliveryTag msg (c_queueName c) (consumerTag c)
                         else ch1);
                  s2 = s1\<lparr>chanHeap := (chanHeap s1)(a := ch2)\<rparr>
              in and_then (sendBuilt s2 cid
                    (buildBasicDeliverFrame (channelNumber ch2) (consumerTag c)
                       deliveryTag False (m_exchange msg) (m_routingKey msg))) (\<lambda>s3.
                 and_then (sendMessageFrames s3 cid (channelNumber ch2) (m_content msg)
                    (m_properties msg)) (\<lambda>s4.
                 (let s5 = (if noAck c \<and> q_durable q'
                            then deleteMessage s4 (c_queueName c) (m_id msg) else s4)
                  in Some (Inr (if canReceive s5 c
                                then s5\<lparr>immediates := immediates s5 @ [c]\<rparr>
                                else s5))))))))"


text \<open>
  The channel of the consumer after a dispatch of the message \<open>m\<close>: the delivery tag is
  taken and, unless the consumer is \<^verbatim>\<open>noAck\<close>, the message is tracked under it.
\<close>

definition tracked :: "broker \<Rightarrow> consumer \<Rightarrow> message \<Rightarrow> channel" where
  "tracked s c m =
     (if noAck c then (chanHeap s (c_channel c))
        \<lparr>deliveryTagCounter := deliveryTagCounter (chanHeap s (c_channel c)) + 1\<rparr>
      else trackUnacked ((chanHeap s (c_channel c))
             \<lparr>deliveryTagCounter := deliveryTagCounter (chanHeap s (c_channel c)) + 1\<rparr>)
             (deliveryTagCounter (chanHeap s (c_channel c)) + 1) m (c_queueName c) (consumerTag c))"

text \<open>\<^verbatim>\<open>for (const consumer of consumers) { this.deliverToConsumer(consumer); }\<close>\<close>

fun deliverToConsumers :: "broker \<Rightarrow> consumer list \<Rightarrow> outcome" where
  "deliverToConsumers s [] = Some (Inr s)"
| "deliverToConsumers s (c # cs) =
     and_then (deliverToConsumer s c) (\<lambda>s'. deliverToConsumers s' cs)"

text \<open>
  The loop that ends the \<^verbatim>\<open>Basic.Ack\<close> and \<^verbatim>\<open>Basic.Recover\<close> handlers: each consumer of
  the channel is looked up by its tag in the registry of the broker and, when found,
  delivered to.
\<close>

fun redeliverToChannel :: "broker \<Rightarrow> consumer list \<Rightarrow> outcome" where
  "redeliverToChannel s [] = Some (Inr s)"
| "redeliverToChannel s (consumer # rest) =
     (case jsmap_get (cr_consumers (consumers s)) (consumerTag consumer) of
        None \<Rightarrow> redeliverToChannel s rest
      | Some c \<Rightarrow> and_then (deliverToConsumer s c) (\<lambda>s'. redeliverToChannel s' rest))"

text \<open>\<^verbatim>\<open>setImmediate(() => this.deliverToConsumer(consumer))\<close> for each consumer of a queue.\<close>

definition scheduleDelivery :: "broker \<Rightarrow> consumer list \<Rightarrow> broker" where
  "scheduleDelivery s cs = s\<lparr>immediates := immediates s @ cs\<rparr>"

subsection \<open>Basic methods\<close>

text \<open>
  The arguments of the \<^verbatim>\<open>Basic\<close> methods as \<^verbatim>\<open>protocol/methods/basic.ts\<close> parses them
  (the argument table of \<^verbatim>\<open>Basic.Consume\<close> is left out).
\<close>

datatype basic_method =
    Qos nat nat bool
  | Consume string string bool bool bool bool
  | Cancel string bool
  | Publish string string bool bool
  | Get string bool
  | Ack nat bool
  | Reject nat bool
  | Nack nat bool bool
  | Recover bool
  | RecoverAsync bool

definition setChannel :: "broker \<Rightarrow> nat \<Rightarrow> channel \<Rightarrow> broker" where
  "setChannel s a ch = s\<lparr>chanHeap := (chanHeap s)(a := ch)\<rparr>"

definition setQueue :: "broker \<Rightarrow> string \<Rightarrow> queue \<Rightarrow> broker" where
  "setQueue s name q = s\<lparr>queues := jsmap_set (queues s) name q\<rparr>"

text \<open>
  \<^verbatim>\<open>BASIC_METHOD.GET\<close>. The handler looks the queue up, dequeues, takes a delivery tag and,
  unless \<^verbatim>\<open>noAck\<close>, tracks the message as unacked with an empty consumer tag.
\<close>

definition basicGet :: "broker \<Rightarrow> string \<Rightarrow> nat \<Rightarrow> nat \<Rightarrow> string \<Rightarrow> bool \<Rightarrow> outcome" where
  "basicGet s cid channelNum a queueName noAck' =
     (case jsmap_get (queues s) queueName of
        None \<Rightarrow>
          closeChannelWithError s cid channelNum REPLY_CODE_NOT_FOUND
            (''Queue '' @ [CHR 0x27] @ queueName @ [CHR 0x27] @ '' not found'')
      | Some q \<Rightarrow>
         (case dequeue q of
            (None, _) \<Rightarrow> sendBuilt s cid (buildBasicGetEmptyFrame channelNum)
          | (Some msg, q') \<Rightarrow>
             (let s1 = setQueue s queueName q';
                  (deliveryTag, ch1) = nextDeliveryTag (chanHeap s1 a);
                  s2 = (if \<not> noAck'
                        then setChannel s1 a (trackUnacked ch1 deliveryTag msg queueName [])
                        else (if q_durable q'
                              then deleteMessage (setChannel s1 a ch1) queueName (m_id msg)
                              else setChannel s1 a ch1))
              in and_then (sendBuilt s2 cid
                    (buildBasicGetOkFrame channelNum deliveryTag False
                       (m_exchange msg) (m_routingKey msg) (getMessageCount q'))) (\<lambda>s3.
                 sendMessageFrames s3 cid channelNum (m_content msg) (m_properties msg)))))"

text \<open>
  The loop of the \<^verbatim>\<open>Basic.Ack\<close> handler over the acked entries: the message of an entry
  whose queue exists and is durable is deleted from the store.
\<close>

definition deleteAcked :: "broker \<Rightarrow> unacked list \<Rightarrow> broker" where
  "deleteAcked s us =
     foldl (\<lambda>s' u. case jsmap_get (queues s') (u_queueName u) of
                      None \<Rightarrow> s'
                    | Some q \<Rightarrow> if q_durable q
                                then deleteMessage s' (u_queueName u) (m_id (u_message u))
                                else s')
       s us"

definition basicAck :: "broker \<Rightarrow> nat \<Rightarrow> nat \<Rightarrow> bool \<Rightarrow> outcome" where
  "basicAck s a deliveryTag multiple =
     (let (acked, ch') = ack (chanHeap s a) deliveryTag multiple;
          s1 = deleteAcked (setChannel s a ch') acked
      in redeliverToChannel s1 (getConsumers (chanHeap s1 a)))"

definition basicReject :: "broker \<Rightarrow> nat \<Rightarrow> nat \<Rightarrow> bool \<Rightarrow> broker" where
  "basicReject s a deliveryTag requeue' =
     (let (rejected, ch') = reject (chanHeap s a) deliveryTag;
          s1 = setChannel s a ch'
      in case rejected of
           None \<Rightarrow> s1
         | Some r \<Rightarrow>
            (if requeue' then
               (case jsmap_get (queues s1) (u_queueName r) of
                  None \<Rightarrow> s1
                | Some q \<Rightarrow>
                    scheduleDelivery
                      (setQueue s1 (u_queueName r) (requeue q (u_message r) True))
                      (getByQueue (consumers s1) (u_queueName r)))
             else
               (case jsmap_get (queues s1) (u_queueName r) of
                  None \<Rightarrow> s1
                | Some q \<Rightarrow> if q_durable q
                            then deleteMessage s1 (u_queueName r) (m_id (u_message r))
                            else s1)))"

text \<open>
  The first loop of the \<^verbatim>\<open>Basic.Nack\<close> handler, over the nacked entries, with the set
  \<^verbatim>\<open>queuesToRedeliver\<close>; then the loop that schedules a delivery to every consumer of
  each queue of the set.
\<close>

definition nackEntries :: "broker \<Rightarrow> unacked list \<Rightarrow> bool \<Rightarrow> broker \<times> string list" where
  "nackEntries s us requeue' =
     foldl (\<lambda>(s', qs) u.
              case jsmap_get (queues s') (u_queueName u) of
                None \<Rightarrow> (s', qs)
              | Some q \<Rightarrow>
                  if requeue'
                  then (setQueue s' (u_queueName u) (requeue q (u_message u) True),
                        jsset_add qs (u_queueName u))
                  else (if q_durable q
                        then deleteMessage s' (u_queueName u) (m_id (u_message u))
                        else s', qs))
       (s, []) us"

definition basicNack :: "broker \<Rightarrow> nat \<Rightarrow> nat \<Rightarrow> bool \<Rightarrow> bool \<Rightarrow> broker" where
  "basicNack s a deliveryTag multiple requeue' =
     (let (nacked, ch') = nack (chanHeap s a) deliveryTag multiple;
          (s1, queuesToRedeliver) = nackEntries (setChannel s a ch') nacked requeue'
      in foldl (\<lambda>s' queueName. scheduleDelivery s' (getByQueue (consumers s') queueName))
           s1 queuesToRedeliver)"

text \<open>
  The loop \<^verbatim>\<open>for (const unacked of ...) { const queue = this.queues.get(unacked.queueName);
  if (queue) { queue.requeue(unacked.message, front); } }\<close>, which the \<^verbatim>\<open>Basic.Recover\<close>
  handler runs with \<^verbatim>\<open>front = !args.requeue\<close> and \<^verbatim>\<open>cleanupChannel\<close> with
  \<^verbatim>\<open>front = true\<close>.
\<close>

definition requeueUnacked :: "broker \<Rightarrow> unacked list \<Rightarrow> bool \<Rightarrow> broker" where
  "requeueUnacked s us front =
     foldl (\<lambda>s' u. case jsmap_get (queues s') (u_queueName u) of
                      None \<Rightarrow> s'
                    | Some q \<Rightarrow> setQueue s' (u_queueName u) (requeue q (u_message u) front))
       s us"

text \<open>
  \<^verbatim>\<open>BASIC_METHOD.RECOVER\<close> and \<^verbatim>\<open>RECOVER_ASYNC\<close>: \<open>recoverRequeue\<close> is the handler up to
  and with the loop that clears the unacked tracking; \<open>basicRecover\<close> then sends
  \<^verbatim>\<open>Recover-Ok\<close> (for \<^verbatim>\<open>RECOVER\<close> only) and delivers to the consumers of the channel.
\<close>

definition recoverRequeue :: "broker \<Rightarrow> nat \<Rightarrow> bool \<Rightarrow> broker" where
  "recoverRequeue s a requeue' =
     (let us = getUnackedMessages (chanHeap s a);
          s1 = requeueUnacked s us (\<not> requeue')
      in setChannel s1 a
           (foldl (\<lambda>ch u. snd (ack ch (u_deliveryTag u) False)) (chanHeap s1 a) us))"

definition basicRecover :: "broker \<Rightarrow> string \<Rightarrow> nat \<Rightarrow> nat \<Rightarrow> bool \<Rightarrow> bool \<Rightarrow> outcome" where
  "basicRecover s cid channelNum a requeue' sync =
     and_then (if sync then sendBuilt (recoverRequeue s a requeue') cid
                              (buildBasicRecoverOkFrame channelNum)
               else Some (Inr (recoverRequeue s a requeue'))) (\<lambda>s3.
     redeliverToChannel s3 (getConsumers (chanHeap s3 a)))"

text \<open>Decimal digits of a number, for the template literal of \<^verbatim>\<open>generateConsumerTag\<close>.\<close>

fun decimal :: "nat \<Rightarrow> string" where
  "decimal n =
     (if n < 10 then [char_of (48 + n)]
      else decimal (n div 10) @ [char_of (48 + n mod 10)])"

definition generateConsumerTag :: "channel \<Rightarrow> string \<times> channel" where
  "generateConsumerTag ch =
     (''amq.ctag-'' @ ch_connection ch @ ''-'' @ decimal (channelNumber ch) @ ''-''
        @ decimal (consumerTagCounter ch + 1),
      ch\<lparr>consumerTagCounter := consumerTagCounter ch + 1\<rparr>)"

definition hasExclusiveConsumer :: "consumer_registry \<Rightarrow> string \<Rightarrow> bool" where
  "hasExclusiveConsumer r queueName = list_ex c_exclusive (getByQueue r queueName)"

definition channel_addConsumer :: "channel \<Rightarrow> consumer \<Rightarrow> channel" where
  "channel_addConsumer ch c = ch\<lparr>ch_consumers := jsmap_set (ch_consumers ch) (consumerTag c) c\<rparr>"

definition channel_removeConsumer :: "channel \<Rightarrow> string \<Rightarrow> channel" where
  "channel_removeConsumer ch tag = ch\<lparr>ch_consumers := jsmap_delete (ch_consumers ch) tag\<rparr>"

definition basicConsume ::
  "broker \<Rightarrow> string \<Rightarrow> nat \<Rightarrow> nat \<Rightarrow> string \<Rightarrow> string \<Rightarrow> bool \<Rightarrow> bool \<Rightarrow> bool \<Rightarrow> bool \<Rightarrow> outcome" where
  "basicConsume s cid channelNum a queueName tag noLocal' noAck' exclusive' noWait =
     (case jsmap_get (queues s) queueName of
        None \<Rightarrow>
          closeChannelWithError s cid channelNum REPLY_CODE_NOT_FOUND
            (''Queue '' @ [CHR 0x27] @ queueName @ [CHR 0x27] @ '' not found'')
      | Some q \<Rightarrow>
          if \<not> canAccess q cid then
            closeChannelWithError s cid channelNum REPLY_CODE_RESOURCE_LOCKED
              ''Queue is exclusive to another connection''
          else if exclusive' \<and> hasExclusiveConsumer (consumers s) queueName then
            closeChannelWithError s cid channelNum REPLY_CODE_ACCESS_REFUSED
              ''Queue has exclusive consumer''
          else
            (let (tag', ch1) = (if tag \<noteq> [] then (tag, chanHeap s a)
                                else generateConsumerTag (chanHeap s a));
                 c = \<lparr>consumerTag = tag', c_queueName = queueName, noLocal = noLocal',
                      noAck = noAck', c_exclusive = exclusive', c_channel = a\<rparr>;
                 s1 = (setChannel s a (channel_addConsumer ch1 c))
                        \<lparr>consumers := consumers_add (consumers s) c\<rparr>;
                 s2 = setQueue s1 queueName (queue_addConsumer q)
             in and_then (if \<not> noWait
                          then sendBuilt s2 cid (buildBasicConsumeOkFrame channelNum tag')
                          else Some (Inr s2)) (\<lambda>s3.
                deliverToConsumer s3 c)))"

definition basicCancel :: "broker \<Rightarrow> string \<Rightarrow> nat \<Rightarrow> nat \<Rightarrow> string \<Rightarrow> bool \<Rightarrow> outcome" where
  "basicCancel s cid channelNum a tag noWait =
     (let s2 = (case jsmap_get (cr_consumers (consumers s)) tag of
                  None \<Rightarrow> s
                | Some c \<Rightarrow>
                   (let s1 = (setChannel s a (channel_removeConsumer (chanHeap s a) tag))
                               \<lparr>consumers := consumers_remove (consumers s) tag\<rparr>
                    in case jsmap_get (queues s1) (c_queueName c) of
                         None \<Rightarrow> s1
                       | Some q \<Rightarrow> setQueue s1 (c_queueName c) (queue_removeConsumer q)))
      in if \<not> noWait
         then sendBuilt s2 cid (buildBasicCancelOkFrame channelNum tag)
         else Some (Inr s2))"

definition basicPublish :: "broker \<Rightarrow> nat \<Rightarrow> string \<Rightarrow> string \<Rightarrow> bool \<Rightarrow> bool \<Rightarrow> broker" where
  "basicPublish s a exchange routingKey mandatory immediate =
     setChannel s a ((chanHeap s a)\<lparr>pendingMessage := Some
       \<lparr>p_exchange = exchange, p_routingKey = routingKey, p_mandatory = mandatory,
        p_immediate = immediate, p_properties = no_properties, bodySize = 0,
        bodyChunks = [], receivedSize = 0\<rparr>\<rparr>)"

text \<open>
  \<^verbatim>\<open>handleBasicMethod\<close>: nothing happens unless the connection has the channel and the
  channel is open.
\<close>

definition handleBasicMethod :: "broker \<Rightarrow> string \<Rightarrow> nat \<Rightarrow> basic_method \<Rightarrow> outcome" where
  "handleBasicMethod s cid channelNum m =
     (case jsmap_get (channels (connHeap s cid)) channelNum of
        None \<Rightarrow> Some (Inr s)
      | Some a \<Rightarrow>
          if ch_state (chanHeap s a) \<noteq> ChOpen then Some (Inr s)
          else (case m of
              Qos ps pc g \<Rightarrow>
                sendBuilt (setChannel s a (setQoS (chanHeap s a) ps pc g)) cid
                  (buildBasicQosOkFrame channelNum)
            | Consume queueName tag noLocal' noAck' exclusive' noWait \<Rightarrow>
                basicConsume s cid channelNum a queueName tag noLocal' noAck' exclusive' noWait
            | Cancel tag noWait \<Rightarrow> basicCancel s cid channelNum a tag noWait
            | Publish exchange routingKey mandatory immediate \<Rightarrow>
                Some (Inr (basicPublish s a exchange routingKey mandatory immediate))
            | Get queueName noAck' \<Rightarrow> basicGet s cid channelNum a queueName noAck'
            | Ack deliveryTag multiple \<Rightarrow> basicAck s a deliveryTag multiple
            | Reject deliveryTag requeue' \<Rightarrow> Some (Inr (basicReject s a deliveryTag requeue'))
            | Nack deliveryTag multiple requeue' \<Rightarrow>
                Some (Inr (basicNack s a deliveryTag multiple requeue'))
            | Recover requeue' \<Rightarrow> basicRecover s cid channelNum a requeue' True
            | RecoverAsync requeue' \<Rightarrow> basicRecover s cid channelNum a requeue' False))"

text \<open>\<^verbatim>\<open>CHANNEL_METHOD.FLOW\<close> of \<^verbatim>\<open>handleChannelMethod\<close>.\<close>

definition channelFlow :: "broker \<Rightarrow> string \<Rightarrow> nat \<Rightarrow> bool \<Rightarrow> outcome" where
  "channelFlow s cid channelNum active =
     (case jsmap_get (channels (connHeap s cid)) channelNum of
        None \<Rightarrow> Some (Inr s)
      | Some a \<Rightarrow>
          sendBuilt (setChannel s a (setFlow (chanHeap s a) active)) cid
            (buildChannelFlowOkFrame channelNum active))"

subsection \<open>Closing channels and connections\<close>

text \<open>
  \<^verbatim>\<open>Channel.close\<close>, with the listener \<^verbatim>\<open>Connection.createChannel\<close> registers for the
  \<^verbatim>\<open>close\<close> event of the channel: it deletes the channel number from the map of the
  connection that created the channel.
\<close>

definition channel_close :: "broker \<Rightarrow> nat \<Rightarrow> broker" where
  "channel_close s a =
     (let ch = chanHeap s a
      in if ch_state ch = ChClosed then s
         else
           (let s1 = setChannel s a
                       (ch\<lparr>unackedMessages := [], ch_consumers := [],
                           pendingMessage := None, ch_state := ChClosed\<rparr>);
                conn = connHeap s1 (ch_connection ch)
            in s1\<lparr>connHeap := (connHeap s1)(ch_connection ch :=
                     conn\<lparr>channels := jsmap_delete (channels conn) (channelNumber ch)\<rparr>)\<rparr>))"

definition connection_closeChannel :: "broker \<Rightarrow> string \<Rightarrow> nat \<Rightarrow> broker" where
  "connection_closeChannel s cid channelNum =
     (case jsmap_get (channels (connHeap s cid)) channelNum of
        None \<Rightarrow> s
      | Some a \<Rightarrow>
          (let s1 = channel_close s a;
               conn = connHeap s1 cid
           in s1\<lparr>connHeap := (connHeap s1)(cid :=
                    conn\<lparr>channels := jsmap_delete (channels conn) channelNum\<rparr>)\<rparr>))"

definition connection_close :: "broker \<Rightarrow> string \<Rightarrow> broker" where
  "connection_close s cid =
     (if conn_state (connHeap s cid) = ConnClosed then s
      else
        (let s1 = foldl channel_close s (jsmap_values (channels (connHeap s cid)));
             conn = connHeap s1 cid
         in s1\<lparr>connHeap := (connHeap s1)(cid :=
                  conn\<lparr>channels := [], conn_state := ConnClosed,
                       socketEnded := (if \<not> socketDestroyed conn then True
                                       else socketEnded conn)\<rparr>)\<rparr>))"

text \<open>
  The callback of the timer that \<^verbatim>\<open>Connection.startHeartbeat\<close> sets, run at the time
  \<open>now\<close> (milliseconds): when more than twice the negotiated heartbeat (seconds) has passed
  since the last heartbeat frame, the connection closes itself. With a heartbeat of 0
  no timer is set.
\<close>

definition heartbeatTimer :: "broker \<Rightarrow> string \<Rightarrow> int \<Rightarrow> broker" where
  "heartbeatTimer s cid now =
     (if heartbeat (connHeap s cid) = 0 then s
      else if heartbeat (connHeap s cid) * 2 * 1000 < now - lastHeartbeat (connHeap s cid)
      then connection_close s cid else s)"

text \<open>The loop of \<^verbatim>\<open>cleanupChannel\<close> over the removed consumers.\<close>

definition releaseConsumers :: "broker \<Rightarrow> consumer list \<Rightarrow> broker" where
  "releaseConsumers s cs =
     foldl (\<lambda>s' c. case jsmap_get (queues s') (c_queueName c) of
                      None \<Rightarrow> s'
                    | Some q \<Rightarrow> setQueue s' (c_queueName c) (queue_removeConsumer q))
       s cs"

definition cleanupChannel :: "broker \<Rightarrow> nat \<Rightarrow> string \<Rightarrow> broker" where
  "cleanupChannel s a cid =
     (let (removed, reg) = removeByChannel (consumers s) a;
          s1 = releaseConsumers (s\<lparr>consumers := reg\<rparr>) removed;
          s2 = requeueUnacked s1 (getUnackedMessages (chanHeap s1 a)) True
      in connection_closeChannel s2 cid (channelNumber (chanHeap s2 a)))"

text \<open>The loop of \<^verbatim>\<open>cleanupConnection\<close> over the queues: \<^verbatim>\<open>Remove exclusive queues\<close>.\<close>

definition removeExclusiveQueues :: "broker \<Rightarrow> string \<Rightarrow> broker" where
  "removeExclusiveQueues s cid =
     foldl (\<lambda>s' (name, q).
              if exclusiveConnectionId q = Some cid
              then s'\<lparr>queues := jsmap_delete (queues s') name,
                       bindings := removeByDestination (bindings s') name\<rparr>
              else s')
       s (queues s)"

definition cleanupConnection :: "broker \<Rightarrow> string \<Rightarrow> broker" where
  "cleanupConnection s cid =
     (let s1 = foldl (\<lambda>s' a. cleanupChannel s' a cid) s
                 (jsmap_values (channels (connHeap s cid)));
          s2 = removeExclusiveQueues s1 cid;
          s3 = s2\<lparr>connections := jsset_delete (connections s2) cid\<rparr>
      in connection_close s3 cid)"

subsection \<open>Routing and publishing\<close>

text \<open>\<^verbatim>\<open>[...new Set(xs)]\<close>: the first occurrence of each element, in order.\<close>

definition js_unique :: "'a list \<Rightarrow> 'a list" where
  "js_unique xs = foldl jsset_add [] xs"

definition matchDirect :: "string \<Rightarrow> binding list \<Rightarrow> string list" where
  "matchDirect routingKey bs =
     map b_destination (filter (\<lambda>b. b_routingKey b = routingKey) bs)"

definition matchFanout :: "binding list \<Rightarrow> string list" where
  "matchFanout bs = js_unique (map b_destination bs)"

definition matchTopic :: "string \<Rightarrow> binding list \<Rightarrow> string list" where
  "matchTopic routingKey bs =
     js_unique (map b_destination
       (filter (\<lambda>b. matchesPattern routingKey (b_routingKey b)) bs))"

definition matchBindings :: "string \<Rightarrow> string \<Rightarrow> binding list \<Rightarrow> string list" where
  "matchBindings type routingKey bs =
     (if type = ''direct'' then matchDirect routingKey bs
      else if type = ''fanout'' then matchFanout bs
      else if type = ''topic'' then matchTopic routingKey bs
      else [])"

text \<open>
  \<^verbatim>\<open>MessageRouter.route\<close> returns \<^verbatim>\<open>Queue\<close> objects found in the map of queues; the model
  returns the keys they were found under.
\<close>

definition route :: "broker \<Rightarrow> message \<Rightarrow> string list" where
  "route s msg =
     (if m_exchange msg = [] then
        (case jsmap_get (queues s) (m_routingKey msg) of
           None \<Rightarrow> []
         | Some q \<Rightarrow> [m_routingKey msg])
      else
        (case jsmap_get (exchanges s) (m_exchange msg) of
           None \<Rightarrow> []
         | Some ex \<Rightarrow>
             filter (\<lambda>queueName. jsmap_get (queues s) queueName \<noteq> None)
               (matchBindings (e_type ex) (m_routingKey msg)
                  (getBySource (bindings s) (m_exchange msg)))))"

text \<open>
  \<^verbatim>\<open>createMessage\<close> (\<^verbatim>\<open>core/message.ts\<close>). \<^verbatim>\<open>randomUUID()\<close> and \<^verbatim>\<open>Date.now()\<close> are
  inputs: \<open>uuid\<close> and \<open>now\<close> (milliseconds).
\<close>

definition createMessage ::
  "string \<Rightarrow> int \<Rightarrow> string \<Rightarrow> string \<Rightarrow> buffer \<Rightarrow> properties \<Rightarrow> bool \<Rightarrow> bool \<Rightarrow> message" where
  "createMessage uuid now exchange routingKey content props mandatory immediate =
     \<lparr> m_id = (case messageId props of
                 None \<Rightarrow> uuid
               | Some i \<Rightarrow> if i = [] then uuid else i),
       m_exchange = exchange, m_routingKey = routingKey,
       m_mandatory = mandatory, m_immediate = immediate,
       m_properties = props\<lparr>timestamp := Some (case timestamp props of
                                                None \<Rightarrow> now div 1000
                                              | Some t \<Rightarrow> t)\<rparr>,
       m_content = content, m_timestamp = now \<rparr>"

text \<open>
  The loop \<^verbatim>\<open>for (const queue of queues)\<close> of \<^verbatim>\<open>completeMessage\<close>: enqueue, persist when
  the queue is durable and the delivery mode is 2, deliver to the consumers of the queue.
\<close>

fun enqueueRouted :: "broker \<Rightarrow> message \<Rightarrow> properties \<Rightarrow> string list \<Rightarrow> outcome" where
  "enqueueRouted s msg props [] = Some (Inr s)"
| "enqueueRouted s msg props (key # keys) =
     (case jsmap_get (queues s) key of
        None \<Rightarrow> enqueueRouted s msg props keys
      | Some q \<Rightarrow>
         (let s1 = setQueue s key (enqueue q msg);
              s2 = (if q_durable q \<and> deliveryMode props = Some 2
                    then saveMessage s1 (q_name q) msg else s1)
          in and_then (deliverToConsumers s2 (getByQueue (consumers s2) (q_name q)))
               (\<lambda>s3. enqueueRouted s3 msg props keys)))"

definition completeMessage :: "string \<Rightarrow> int \<Rightarrow> broker \<Rightarrow> string \<Rightarrow> nat \<Rightarrow> outcome" where
  "completeMessage uuid now s cid a =
     (case pendingMessage (chanHeap s a) of
        None \<Rightarrow> Some (Inr s)
      | Some p \<Rightarrow>
         (let content = concat (bodyChunks p);
              msg = createMessage uuid now (p_exchange p) (p_routingKey p) content
                      (p_properties p) (p_mandatory p) (p_immediate p);
              s1 = setChannel s a ((chanHeap s a)\<lparr>pendingMessage := None\<rparr>);
              routed = route s1 msg
          in if length routed = 0 then
               (if p_mandatory p then
                  and_then (sendBuilt s1 cid
                     (buildBasicReturnFrame (channelNumber (chanHeap s1 a))
                        REPLY_CODE_NO_CONSUMERS ''No route''
                        (p_exchange p) (p_routingKey p))) (\<lambda>s2.
                  sendMessageFrames s2 cid (channelNumber (chanHeap s2 a)) content
                    (p_properties p))
                else Some (Inr s1))
             else enqueueRouted s1 msg (p_properties p) routed))"

text \<open>
  \<^verbatim>\<open>handleHeaderFrame\<close> and \<^verbatim>\<open>handleBodyFrame\<close>; the content header arrives parsed, as
  its body size and properties.
\<close>

definition handleHeaderFrame ::
  "string \<Rightarrow> int \<Rightarrow> broker \<Rightarrow> string \<Rightarrow> nat \<Rightarrow> nat \<Rightarrow> properties \<Rightarrow> outcome" where
  "handleHeaderFrame uuid now s cid channelNum bsize props =
     (case jsmap_get (channels (connHeap s cid)) channelNum of
        None \<Rightarrow> Some (Inr s)
      | Some a \<Rightarrow>
         (case pendingMessage (chanHeap s a) of
            None \<Rightarrow> Some (Inr s)
          | Some p \<Rightarrow>
             (let s1 = setChannel s a ((chanHeap s a)\<lparr>pendingMessage :=
                         Some (p\<lparr>bodySize := bsize, p_properties := props\<rparr>)\<rparr>)
              in if bsize = 0 then completeMessage uuid now s1 cid a else Some (Inr s1))))"

definition handleBodyFrame ::
  "string \<Rightarrow> int \<Rightarrow> broker \<Rightarrow> string \<Rightarrow> nat \<Rightarrow> buffer \<Rightarrow> outcome" where
  "handleBodyFrame uuid now s cid channelNum payload =
     (case jsmap_get (channels (connHeap s cid)) channelNum of
        None \<Rightarrow> Some (Inr s)
      | Some a \<Rightarrow>
         (let (complete, ch') = appendBodyChunk (chanHeap s a) payload;
              s1 = setChannel s a ch'
          in if complete then completeMessage uuid now s1 cid a else Some (Inr s1)))"section \<open>Connection.Tune-Ok\<close>

record tune_ok_args =
  t_channelMax :: nat
  t_frameMax :: nat
  t_heartbeat :: nat

text \<open>\<^verbatim>\<open>parseConnectionTuneOk\<close> (\<^verbatim>\<open>protocol/methods/connection.ts\<close>).\<close>

definition parseConnectionTuneOk :: "buffer \<Rightarrow> js_error + tune_ok_args" where
  "parseConnectionTuneOk args =
     (case readUInt16BE args 0 of
        Inl e \<Rightarrow> Inl e
      | Inr cm \<Rightarrow>
         (case readUInt32BE args 2 of
            Inl e \<Rightarrow> Inl e
          | Inr fm \<Rightarrow>
             (case readUInt16BE args 6 of
                Inl e \<Rightarrow> Inl e
              | Inr hb \<Rightarrow>
                  Inr \<lparr>t_channelMax = cm, t_frameMax = fm, t_heartbeat = hb\<rparr>)))"

text \<open>\<^verbatim>\<open>a || b\<close> on numbers: \<^verbatim>\<open>b\<close> when \<^verbatim>\<open>a\<close> is zero.\<close>

definition js_or :: "int \<Rightarrow> int \<Rightarrow> int" where
  "js_or a b = (if a \<noteq> 0 then a else b)"

text \<open>
  \<^verbatim>\<open>CONNECTION_METHOD.TUNE_OK\<close> of \<^verbatim>\<open>handleConnectionMethod\<close>, on the connection object.
  An error is the exception the parser throws.
\<close>

definition handleTuneOk :: "broker_options \<Rightarrow> connection \<Rightarrow> buffer \<Rightarrow> js_error + connection" where
  "handleTuneOk opts conn args =
     (case parseConnectionTuneOk args of
        Inl e \<Rightarrow> Inl e
      | Inr a \<Rightarrow>
          Inr (conn\<lparr>
            channelMax := min (js_or (int (t_channelMax a)) (o_channelMax opts)) (o_channelMax opts),
            frameMax := min (js_or (int (t_frameMax a)) (o_frameMax opts)) (o_frameMax opts),
            heartbeat := min (int (t_heartbeat a)) (o_heartbeat opts),
            conn_state := ConnAwaitingOpen\<rparr>))"

section \<open>Example states\<close>

text \<open>
  A broker with one open connection \<open>c1\<close> whose channel 1 is the channel object at
  address 0, a second open connection \<open>c2\<close> whose channel 1 is at address 1, and one
  queue \<open>q\<close>. The examples below vary it.
\<close>

definition msg1 :: message where
  "msg1 = \<lparr> m_id = ''id1'', m_exchange = [], m_routingKey = ''q'', m_mandatory = False,
             m_immediate = False, m_properties = no_properties, m_content = [1, 2, 3],
             m_timestamp = 0 \<rparr>"

definition msg2 :: message where
  "msg2 = msg1\<lparr>m_id := ''id2'', m_content := [4]\<rparr>"

definition msg3 :: message where
  "msg3 = msg1\<lparr>m_id := ''id3'', m_content := []\<rparr>"

definition queue_q :: queue where
  "queue_q = \<lparr> q_name = ''q'', q_durable = False, q_exclusive = False, q_autoDelete = False,
                exclusiveConnectionId = None, messages = [], consumerCount = 0 \<rparr>"

definition chan0 :: channel where
  "chan0 = \<lparr> channelNumber = 1, ch_connection = ''c1'', ch_state = ChOpen, flowActive = True,
              qos = \<lparr>prefetchSize = 0, prefetchCount = 0, qos_global = False\<rparr>,
              deliveryTagCounter = 0, unackedMessages = [], ch_consumers = [],
              consumerTagCounter = 0, pendingMessage = None \<rparr>"

definition conn1 :: connection where
  "conn1 = \<lparr> conn_id = ''c1'', conn_state = ConnOpen, channels = [(1, 0)], channelMax = 2047,
              frameMax = 131072, heartbeat = 60, lastHeartbeat = 0, socketDestroyed = False, socketEnded = False,
              sent = [] \<rparr>"

definition conn2 :: connection where
  "conn2 = conn1\<lparr>conn_id := ''c2'', channels := [(1, 1)]\<rparr>"

definition default_options :: broker_options where
  "default_options = \<lparr> o_channelMax = 2047, o_frameMax = 131072, o_heartbeat = 60 \<rparr>"

definition broker0 :: broker where
  "broker0 = \<lparr> options = default_options,
                connections = [''c1'', ''c2''],
                connHeap = (\<lambda>_. conn1)(''c2'' := conn2),
                chanHeap = (\<lambda>_. chan0)(1 := chan0\<lparr>ch_connection := ''c2''\<rparr>),
                exchanges = [],
                queues = [(''q'', queue_q)],
                bindings = \<lparr>r_bindings = [], bySource = [], byDestination = []\<rparr>,
                consumers = \<lparr>cr_consumers = [], queueConsumers = []\<rparr>,
                store_log = [],
                immediates = [] \<rparr>"

definition consumer1 :: consumer where
  "consumer1 = \<lparr> consumerTag = ''ct'', c_queueName = ''q'', noLocal = False, noAck = False,
                  c_exclusive = False, c_channel = 0 \<rparr>"

definition unacked1 :: unacked where
  "unacked1 = \<lparr> u_message = msg1, u_queueName = ''q'', u_deliveryTag = 1, u_consumerTag = ''ct'' \<rparr>"

definition unacked2 :: unacked where
  "unacked2 = \<lparr> u_message = msg2, u_queueName = ''q'', u_deliveryTag = 2, u_consumerTag = ''ct'' \<rparr>"

text \<open>
  \<open>broker_consuming\<close>: \<open>consumer1\<close> consumes from \<open>q\<close> on channel 1 of \<open>c1\<close>.
\<close>

definition broker_consuming :: broker where
  "broker_consuming =
     (setQueue (setChannel broker0 0 (channel_addConsumer chan0 consumer1)) ''q''
        (queue_addConsumer queue_q))
     \<lparr>consumers := consumers_add (consumers broker0) consumer1\<rparr>"

text \<open>
  \<open>broker_prefetch1\<close>: the channel has \<^verbatim>\<open>prefetchCount = 1\<close>, \<open>msg1\<close> was delivered with
  tag 1 and is unacked, and \<open>msg2\<close> waits in the queue.
\<close>

definition broker_prefetch1 :: broker where
  "broker_prefetch1 =
     setQueue (setChannel broker_consuming 0
        ((trackUnacked (setQoS (chanHeap broker_consuming 0) 0 1 False) 1 msg1 ''q'' ''ct'')
           \<lparr>deliveryTagCounter := 1\<rparr>)) ''q''
        ((queue_addConsumer queue_q)\<lparr>messages := [msg2]\<rparr>)"

text \<open>\<open>broker_prefetch2\<close>: as \<open>broker_prefetch1\<close>, with \<^verbatim>\<open>prefetchCount = 2\<close>.\<close>

definition broker_prefetch2 :: broker where
  "broker_prefetch2 =
     setChannel broker_prefetch1 0 (setQoS (chanHeap broker_prefetch1 0) 0 2 False)"

text \<open>
  \<open>broker_two_unacked\<close>: no prefetch limit, \<open>msg1\<close> and \<open>msg2\<close> were delivered in this
  order (tags 1 and 2) and are unacked, \<open>msg3\<close> waits in the queue, and the flow of the
  channel is off.
\<close>

definition broker_two_unacked :: broker where
  "broker_two_unacked =
     setQueue (setChannel broker_consuming 0
        ((chanHeap broker_consuming 0)
           \<lparr>unackedMessages := [(1, unacked1), (2, unacked2)], deliveryTagCounter := 2,
            flowActive := False\<rparr>)) ''q''
        ((queue_addConsumer queue_q)\<lparr>messages := [msg3]\<rparr>)"

text \<open>
  \<open>broker_waiting\<close>: \<open>consumer1\<close> consumes from \<open>q\<close>, nothing is unacked, and \<open>msg1\<close>
  waits in the queue (it was published while the flow of the channel was off, and
  \<^verbatim>\<open>Channel.Flow\<close> does not dispatch when it turns the flow on again).
\<close>

definition broker_waiting :: broker where
  "broker_waiting =
     setQueue broker_consuming ''q'' ((queue_addConsumer queue_q)\<lparr>messages := [msg1]\<rparr>)"

text \<open>
  \<open>broker_closed_channel\<close>: as \<open>broker_waiting\<close>, but the channel object of the consumer
  is closed (\<^verbatim>\<open>Channel.close\<close> has run) while the registry of the broker still holds the
  consumer.
\<close>

definition broker_closed_channel :: broker where
  "broker_closed_channel =
     setChannel broker_waiting 0
       (chan0\<lparr>ch_state := ChClosed\<rparr>)"

text \<open>\<open>broker_exclusive\<close>: the queue \<open>xq\<close> is exclusive to \<open>c1\<close> and holds \<open>msg1\<close>.\<close>

definition queue_xq :: queue where
  "queue_xq = \<lparr> q_name = ''xq'', q_durable = False, q_exclusive = True, q_autoDelete = False,
                 exclusiveConnectionId = Some ''c1'', messages = [msg1], consumerCount = 0 \<rparr>"

definition broker_exclusive :: broker where
  "broker_exclusive =
     broker0\<lparr> queues := [(''q'', queue_q), (''xq'', queue_xq)],
               bindings := registry_add (bindings broker0)
                 \<lparr>b_source = [], b_destination = ''xq'', b_routingKey = ''xq''\<rparr> \<rparr>"

text \<open>
  \<open>broker_publishing\<close>: channel 1 of \<open>c1\<close> holds a complete mandatory publish of one
  byte to the exchange \<open>nowhere\<close>, which does not exist.
\<close>

definition pending1 :: pending where
  "pending1 = \<lparr> p_exchange = ''nowhere'', p_routingKey = ''k'', p_mandatory = True,
                 p_immediate = False, p_properties = no_properties, bodySize = 1,
                 bodyChunks = [[7]], receivedSize = 1 \<rparr>"

definition broker_publishing :: broker where
  "broker_publishing = setChannel broker0 0 (chan0\<lparr>pendingMessage := Some pending1\<rparr>)"

text \<open>
  \<open>broker_small_frames\<close>: as \<open>broker_publishing\<close>, on a connection whose negotiated
  frame size is 8 (the client sent \<^verbatim>\<open>frameMax = 8\<close> in \<^verbatim>\<open>Tune-Ok\<close>).
\<close>

definition broker_small_frames :: broker where
  "broker_small_frames =
     broker_publishing\<lparr>connHeap := (connHeap broker_publishing)(''c1'' := conn1\<lparr>frameMax := 8\<rparr>)\<rparr>"

text \<open>
  \<open>broker_timed_out\<close>: \<open>broker_consuming\<close> after the heartbeat timer of \<open>c1\<close> has run
  120001 ms after the last heartbeat frame of the client, with a negotiated heartbeat of
  60 s. \<open>broker_two_timed_out\<close>: the same for \<open>broker_two_unacked\<close>.
\<close>

definition broker_timed_out :: broker where
  "broker_timed_out = heartbeatTimer broker_consuming ''c1'' 120001"

definition broker_two_timed_out :: broker where
  "broker_two_timed_out = heartbeatTimer broker_two_unacked ''c1'' 120001"

text \<open>
  Connection \<open>c2\<close> publishes one byte to the queue \<open>q\<close> through the default exchange, on
  its channel 1: \<^verbatim>\<open>Basic.Publish\<close>, the content header, one body frame.
\<close>

definition publish_to_q :: "broker \<Rightarrow> outcome" where
  "publish_to_q s =
     and_then (handleBasicMethod s ''c2'' 1 (Publish [] ''q'' False False)) (\<lambda>s2.
     and_then (handleHeaderFrame ''u'' 0 s2 ''c2'' 1 1 no_properties) (\<lambda>s3.
     handleBodyFrame ''u'' 0 s3 ''c2'' 1 [7]))"
section \<open>Properties\<close>

subsection \<open>Connection.Tune-Ok (claim C5)\<close>

text \<open>
  Claim C5, as the code has it: for every \<^verbatim>\<open>Tune-Ok\<close> whose arguments hold the eight bytes
  of the three client values, the negotiated \<^verbatim>\<open>channelMax\<close> and \<^verbatim>\<open>frameMax\<close> are the
  server value when the client value is zero and the minimum of the client and the server
  value otherwise; the negotiated \<^verbatim>\<open>heartbeat\<close> is the minimum of the client and the
  server value in every case, so a client heartbeat of zero is kept as zero (no
  heartbeats; \<^verbatim>\<open>Connection.startHeartbeat\<close> returns at once).
\<close>

theorem tune_ok_negotiation:
  assumes "8 \<le> length args"
  shows "handleTuneOk opts conn args =
         Inr (conn\<lparr>
           channelMax := (if be_nat (take 2 args) = 0 then o_channelMax opts
                          else min (int (be_nat (take 2 args))) (o_channelMax opts)),
           frameMax := (if be_nat (take 4 (drop 2 args)) = 0 then o_frameMax opts
                        else min (int (be_nat (take 4 (drop 2 args)))) (o_frameMax opts)),
           heartbeat := min (int (be_nat (take 2 (drop 6 args)))) (o_heartbeat opts),
           conn_state := ConnAwaitingOpen\<rparr>)"
  using assms
  by (simp add: handleTuneOk_def parseConnectionTuneOk_def readUInt16BE_def readUInt32BE_def
      readUIntBE_def js_or_def)

text \<open>
  Witness: the client sends \<^verbatim>\<open>channelMax = 5\<close>, \<^verbatim>\<open>frameMax = 9\<close> and \<^verbatim>\<open>heartbeat = 0\<close> to
  a server with the default options.
\<close>

theorem tune_ok_negotiation_witness:
  "8 \<le> length [0, 5, 0, 0, 0, 9, 0, 0 :: byte]
   \<and> handleTuneOk default_options conn1 [0, 5, 0, 0, 0, 9, 0, 0] =
       Inr (conn1\<lparr>channelMax := 5, frameMax := 9, heartbeat := 0,
                  conn_state := ConnAwaitingOpen\<rparr>)"
  using tune_ok_negotiation [of "[0, 5, 0, 0, 0, 9, 0, 0]" default_options conn1]
  by (simp add: be_nat_def default_options_def)

text \<open>
  Counterexample to claim C5 as stated: the server heartbeat is 60, the client sends
  zero for all three values, and the negotiated heartbeat is 0, not 60.
\<close>

theorem tune_ok_heartbeat_counterexample:
  "o_heartbeat default_options = 60
   \<and> map_sum id heartbeat (handleTuneOk default_options conn1 [0, 0, 0, 0, 0, 0, 0, 0]) = Inr 0"
  by code_simp

subsection \<open>The topic matcher (claim C6)\<close>

text \<open>
  The recursion of \<open>matchesWords\<close> on slices agrees with the recursion of the source
  through \<^verbatim>\<open>join\<close> and a new \<^verbatim>\<open>split\<close>: the words of a split hold no dot, and a
  non-empty list of such words is what its join splits into.
\<close>

lemma js_split_dot_nonempty: "js_split_dot s \<noteq> []"
  by (induction s) (auto split: list.splits)

lemma js_split_dot_no_dots: "w \<in> set (js_split_dot s) \<Longrightarrow> CHR ''.'' \<notin> set w"
proof (induction s arbitrary: w)
  case Nil
  then show ?case by simp
next
  case (Cons c cs)
  then show ?case
    by (cases "js_split_dot cs") (auto split: if_splits)
qed

lemma js_split_dot_word:
  "CHR ''.'' \<notin> set w \<Longrightarrow> js_split_dot (w @ CHR ''.'' # s) = w # js_split_dot s"
  by (induction w) (auto split: list.splits)

lemma js_split_dot_single: "CHR ''.'' \<notin> set w \<Longrightarrow> js_split_dot w = [w]"
  by (induction w) (auto split: list.splits)

lemma js_split_join:
  "ws \<noteq> [] \<Longrightarrow> \<forall>w \<in> set ws. CHR ''.'' \<notin> set w \<Longrightarrow> js_split_dot (js_join_dot ws) = ws"
proof (induction ws rule: js_join_dot.induct)
  case 1
  then show ?case by simp
next
  case (2 w)
  then show ?case by (simp add: js_split_dot_single)
next
  case (3 w v ws)
  then show ?case by (simp add: js_split_dot_word)
qed

text \<open>The pattern \<^verbatim>\<open>#\<close> matches every routing key, the empty one too.\<close>

lemma hash_matches_every_key: "matchesPattern routingKey ''#''"
  by (simp add: matchesPattern_def)

text \<open>
  Claim C6 says that the empty routing key does not match the pattern \<^verbatim>\<open>*\<close>. In the
  code it does: the empty key splits into one empty word, which \<^verbatim>\<open>*\<close> consumes.
\<close>

theorem empty_key_matches_star: "matchesPattern '''' ''*''"
  by code_simp

text \<open>The empty key also matches the empty pattern and \<^verbatim>\<open>#.#\<close>, as claim C6 says.\<close>

lemma empty_key_matches_hashes:
  "matchesPattern '''' '''' \<and> matchesPattern '''' ''#.#'' \<and> \<not> matchesPattern '''' ''a''"
  by code_simp

subsection \<open>Helper lemmas: maps, sending, building frames\<close>

lemma jsmap_get_set: "jsmap_get (jsmap_set m k v) k' = (if k' = k then Some v else jsmap_get m k')"
  by (induction m) auto

lemma length_jsmap_set: "length (jsmap_set m k v) \<le> Suc (length m)"
  by (induction m) auto

lemma send_frame [simp]:
  "chanHeap (send s cid f) = chanHeap s"
  "queues (send s cid f) = queues s"
  "consumers (send s cid f) = consumers s"
  "store_log (send s cid f) = store_log s"
  "immediates (send s cid f) = immediates s"
  "bindings (send s cid f) = bindings s"
  "exchanges (send s cid f) = exchanges s"
  "frameMax (connHeap (send s cid f) c') = frameMax (connHeap s c')"
  "socketDestroyed (connHeap (send s cid f) c') = socketDestroyed (connHeap s c')"
  "conn_state (connHeap (send s cid f) c') = conn_state (connHeap s c')"
  "channels (connHeap (send s cid f) c') = channels (connHeap s c')"
  by (simp_all add: send_def Let_def)

lemma sendAll_frame [simp]:
  "chanHeap (sendAll s cid fs) = chanHeap s"
  "queues (sendAll s cid fs) = queues s"
  "consumers (sendAll s cid fs) = consumers s"
  "store_log (sendAll s cid fs) = store_log s"
  "immediates (sendAll s cid fs) = immediates s"
  "bindings (sendAll s cid fs) = bindings s"
  "exchanges (sendAll s cid fs) = exchanges s"
  "frameMax (connHeap (sendAll s cid fs) c') = frameMax (connHeap s c')"
  "socketDestroyed (connHeap (sendAll s cid fs) c') = socketDestroyed (connHeap s c')"
  "conn_state (connHeap (sendAll s cid fs) c') = conn_state (connHeap s c')"
  "channels (connHeap (sendAll s cid fs) c') = channels (connHeap s c')"
  unfolding sendAll_def by (induction fs arbitrary: s; simp)+

lemma sent_send:
  "sent (connHeap (send s cid f) cid) =
     (if socketDestroyed (connHeap s cid) \<or> conn_state (connHeap s cid) = ConnClosed
      then sent (connHeap s cid) else sent (connHeap s cid) @ [f])"
  by (simp add: send_def Let_def)

lemma sent_sendAll:
  "sent (connHeap (sendAll s cid fs) cid) =
     (if socketDestroyed (connHeap s cid) \<or> conn_state (connHeap s cid) = ConnClosed
      then sent (connHeap s cid) else sent (connHeap s cid) @ fs)"
  unfolding sendAll_def
proof (induction fs arbitrary: s)
  case Nil
  then show ?case by simp
next
  case (Cons f fs)
  show ?case
    by (simp add: Cons.IH sent_send)
qed

lemma deleteMessage_frame [simp]:
  "chanHeap (deleteMessage s q i) = chanHeap s"
  "queues (deleteMessage s q i) = queues s"
  "connHeap (deleteMessage s q i) = connHeap s"
  "consumers (deleteMessage s q i) = consumers s"
  "immediates (deleteMessage s q i) = immediates s"
  by (simp_all add: deleteMessage_def)

lemma canReceive_iff:
  "canReceive s c =
     (flowActive (chanHeap s (c_channel c))
      \<and> (prefetchCount (qos (chanHeap s (c_channel c))) = 0
         \<or> getUnackedCount (chanHeap s (c_channel c))
             < prefetchCount (qos (chanHeap s (c_channel c)))))"
  by (simp add: canReceive_def canDeliver_def getUnackedCount_def)

lemma and_then_Some:
  "and_then r f = Some x \<Longrightarrow> r = None \<Longrightarrow> False"
  by (simp add: and_then_def)

lemma and_then_cases:
  assumes "and_then r f = Some x"
  obtains (thrown) e where "r = Some (Inl e)" "x = Inl e"
    | (went_on) y where "r = Some (Inr y)" "f y = Some x"
  using assms by (auto simp add: and_then_def split: option.splits sum.splits)

text \<open>
  A frame that is built is the frame of the arguments; sending what a builder gives
  changes, at most, what was sent on the connection.
\<close>

lemma method_frame_Inr:
  "method_frame ch c m ab args = Inr f \<Longrightarrow> f = MethodFrame ch c m args"
  by (auto simp add: method_frame_def bind_ok_def split: sum.splits)

lemma sendBuilt_total: "sendBuilt s cid b \<noteq> None"
  by (simp add: sendBuilt_def split: sum.splits)

lemma sendBuilt_frame:
  assumes "sendBuilt s cid b = Some r"
  shows "chanHeap (state_of r) = chanHeap s"
    and "queues (state_of r) = queues s"
    and "consumers (state_of r) = consumers s"
    and "store_log (state_of r) = store_log s"
    and "immediates (state_of r) = immediates s"
    and "frameMax (connHeap (state_of r) c') = frameMax (connHeap s c')"
  using assms by (auto simp add: sendBuilt_def state_of_def split: sum.splits)

lemma sendMessageFrames_frame:
  assumes "sendMessageFrames s cid ch content props = Some r"
  shows "chanHeap (state_of r) = chanHeap s"
    and "queues (state_of r) = queues s"
    and "consumers (state_of r) = consumers s"
    and "store_log (state_of r) = store_log s"
    and "immediates (state_of r) = immediates s"
  using assms
  by (auto simp add: sendMessageFrames_def state_of_def split: option.splits sum.splits)

text \<open>
  The loop of \<^verbatim>\<open>buildContentBodyFrames\<close> never returns when the payload size is not
  positive and bytes are left (it throws or goes on forever; it goes on forever when
  the channel number and the body are within what \<^verbatim>\<open>buildFrame\<close> can write); with a
  positive payload size it ends.
\<close>

lemma writeUInt_ok: "0 \<le> v \<Longrightarrow> v < 256 ^ n \<Longrightarrow> writeUInt n v = Inr (writeUIntBE n v)"
  by (simp add: writeUInt_def)

lemma buildFrame_ok:
  assumes "ch \<le> 65535" "length p < 2 ^ 32"
  shows "\<exists>b. buildFrame FRAME_TYPE_BODY ch p = Inr b"
proof -
  have "int (length p) < 2 ^ 32"
    using assms(2) by (metis of_nat_less_iff of_nat_numeral of_nat_power)
  then show ?thesis
    using assms(1)
    by (simp add: buildFrame_def bind_ok_def writeUInt_def FRAME_TYPE_BODY_def FRAME_END_def)
qed

lemma length_subarray: "length (subarray b i j) \<le> length b"
  by (simp add: subarray_def)

lemma bodyFramesLoop_stuck:
  assumes "bodyFramesLoop ch body mp off fs = Some r"
  shows "\<not> (ch \<le> 65535 \<and> length body < 2 ^ 32 \<and> mp \<le> 0 \<and> off < int (length body))"
proof (rule bodyFramesLoop.raw_induct
    [where P = "\<lambda>ch body mp off fs r.
       \<not> (ch \<le> 65535 \<and> length body < 2 ^ 32 \<and> mp \<le> 0 \<and> off < int (length body))",
     OF _ assms])
  fix rec :: "nat \<Rightarrow> buffer \<Rightarrow> int \<Rightarrow> int \<Rightarrow> frame list \<Rightarrow> (js_error + frame list) option"
  fix ch body mp off fs r
  assume ih: "\<And>ch body mp off fs r. rec ch body mp off fs = Some r
                \<Longrightarrow> \<not> (ch \<le> 65535 \<and> length body < 2 ^ 32 \<and> mp \<le> 0 \<and> off < int (length body))"
    and step: "(if off < int (length body)
                then case buildFrame FRAME_TYPE_BODY ch
                       (subarray body off (off + min (int (length body) - off) mp)) of
                    Inl e \<Rightarrow> Some (Inl e)
                  | Inr bytes \<Rightarrow>
                      rec ch body mp (off + min (int (length body) - off) mp)
                        (fs @ [ContentBodyFrame ch
                           (subarray body off (off + min (int (length body) - off) mp))])
                else Some (Inr fs)) = Some r"
  show "\<not> (ch \<le> 65535 \<and> length body < 2 ^ 32 \<and> mp \<le> 0 \<and> off < int (length body))"
  proof
    assume h: "ch \<le> 65535 \<and> length body < 2 ^ 32 \<and> mp \<le> 0 \<and> off < int (length body)"
    let ?chunk = "subarray body off (off + min (int (length body) - off) mp)"
    have "length ?chunk < 2 ^ 32"
      using h length_subarray [of body off "off + min (int (length body) - off) mp"]
      by linarith
    with h obtain b where b: "buildFrame FRAME_TYPE_BODY ch ?chunk = Inr b"
      using buildFrame_ok by blast
    with step h have "rec ch body mp (off + min (int (length body) - off) mp)
          (fs @ [ContentBodyFrame ch ?chunk]) = Some r"
      by simp
    from ih [OF this] h show False by (simp add: min_def split: if_splits)
  qed
qed

lemma bodyFramesLoop_diverges:
  "ch \<le> 65535 \<Longrightarrow> length body < 2 ^ 32 \<Longrightarrow> mp \<le> 0 \<Longrightarrow> off < int (length body)
   \<Longrightarrow> bodyFramesLoop ch body mp off fs = None"
  using bodyFramesLoop_stuck [of ch body mp off fs]
  by (cases "bodyFramesLoop ch body mp off fs") auto

lemma bodyFramesLoop_ends:
  assumes "0 < mp" "0 \<le> off"
  shows "bodyFramesLoop ch body mp off fs \<noteq> None"
  using assms
proof (induction "length body - nat off" arbitrary: off fs rule: less_induct)
  case less
  show ?case
  proof (cases "off < int (length body)")
    case False
    then show ?thesis
      by (subst bodyFramesLoop.simps) simp
  next
    case True
    let ?k = "min (int (length body) - off) mp"
    let ?chunk = "subarray body off (off + ?k)"
    have k: "0 < ?k" using True less.prems by simp
    have "length body - nat (off + ?k) < length body - nat off"
      using True less.prems k by linarith
    from less.hyps [OF this, of "fs @ [ContentBodyFrame ch ?chunk]"] less.prems k
    have r: "bodyFramesLoop ch body mp (off + ?k) (fs @ [ContentBodyFrame ch ?chunk]) \<noteq> None"
      by simp
    show ?thesis
      using True r by (subst bodyFramesLoop.simps) (simp split: sum.splits)
  qed
qed

lemma buildContentBodyFrames_diverges:
  "ch \<le> 65535 \<Longrightarrow> length body < 2 ^ 32 \<Longrightarrow> fm \<le> 8 \<Longrightarrow> body \<noteq> []
   \<Longrightarrow> buildContentBodyFrames ch body fm = None"
  by (simp add: buildContentBodyFrames_def bodyFramesLoop_diverges)

lemma buildMessageFrames_ends:
  "8 < fm \<Longrightarrow> buildMessageFrames ch body props fm \<noteq> None"
  using bodyFramesLoop_ends [of "fm - 8" 0 ch body "[]"]
  by (auto simp add: buildMessageFrames_def buildContentBodyFrames_def and_then_def
      split: sum.splits option.splits)

lemma sendMessageFrames_ends:
  "8 < frameMax (connHeap s cid) \<Longrightarrow> sendMessageFrames s cid ch content props \<noteq> None"
  using buildMessageFrames_ends [of "frameMax (connHeap s cid)" ch content props]
  by (auto simp add: sendMessageFrames_def split: option.splits sum.splits)

text \<open>
  \<open>deliverToConsumer\<close> leaves the state as it is when it has nothing to dispatch.
  Otherwise it takes the first message out of the queue of the consumer and a delivery
  tag from its channel, where it tracks the message unless the consumer is
  \<^verbatim>\<open>noAck\<close>; this is so whether the call then returns or throws.
\<close>

lemma deliverToConsumer_skip:
  "\<not> canReceive s c \<Longrightarrow> deliverToConsumer s c = Some (Inr s)"
  "jsmap_get (queues s) (c_queueName c) = None \<Longrightarrow> deliverToConsumer s c = Some (Inr s)"
  "jsmap_get (queues s) (c_queueName c) = Some q \<Longrightarrow> messages q = []
     \<Longrightarrow> deliverToConsumer s c = Some (Inr s)"
  by (simp_all add: deliverToConsumer_def dequeue_def)

lemma deliverToConsumer_dispatch:
  assumes "canReceive s c"
    and "jsmap_get (queues s) (c_queueName c) = Some q"
    and "messages q = m # ms"
    and "deliverToConsumer s c = Some r"
  shows "queues (state_of r) = jsmap_set (queues s) (c_queueName c) (q\<lparr>messages := ms\<rparr>)"
    and "chanHeap (state_of r) = (chanHeap s)(c_channel c := tracked s c m)"
proof -
  let ?s1 = "s\<lparr>queues := jsmap_set (queues s) (c_queueName c) (q\<lparr>messages := ms\<rparr>)\<rparr>"
  let ?s2 = "?s1\<lparr>chanHeap := (chanHeap s)(c_channel c := tracked s c m)\<rparr>"
  let ?cid = "ch_connection (chanHeap s (c_channel c))"
  let ?n = "channelNumber (chanHeap s (c_channel c))"
  let ?tag = "deliveryTagCounter (chanHeap s (c_channel c)) + 1"
  have d: "deliverToConsumer s c =
     and_then (sendBuilt ?s2 ?cid
        (buildBasicDeliverFrame ?n (consumerTag c) ?tag False (m_exchange m) (m_routingKey m)))
       (\<lambda>s3. and_then (sendMessageFrames s3 ?cid ?n (m_content m) (m_properties m))
          (\<lambda>s4. Some (Inr
             (if canReceive (if noAck c \<and> q_durable (q\<lparr>messages := ms\<rparr>)
                             then deleteMessage s4 (c_queueName c) (m_id m) else s4) c
              then (if noAck c \<and> q_durable (q\<lparr>messages := ms\<rparr>)
                    then deleteMessage s4 (c_queueName c) (m_id m) else s4)
                   \<lparr>immediates := immediates (if noAck c \<and> q_durable (q\<lparr>messages := ms\<rparr>)
                        then deleteMessage s4 (c_queueName c) (m_id m) else s4) @ [c]\<rparr>
              else (if noAck c \<and> q_durable (q\<lparr>messages := ms\<rparr>)
                    then deleteMessage s4 (c_queueName c) (m_id m) else s4)))))"
    using assms(1-3)
    by (simp add: deliverToConsumer_def dequeue_def Let_def nextDeliveryTag_def tracked_def
        trackUnacked_def)
  from assms(4) [unfolded d]
  have "queues (state_of r) = queues ?s2 \<and> chanHeap (state_of r) = chanHeap ?s2"
  proof (cases rule: and_then_cases)
    case (thrown e)
    then show ?thesis
      using sendBuilt_frame(1,2) [of ?s2 ?cid _ "Inl e"] by simp
  next
    case (went_on s3)
    from went_on(1) have s3: "queues s3 = queues ?s2" "chanHeap s3 = chanHeap ?s2"
      using sendBuilt_frame(1,2) [of ?s2 ?cid _ "Inr s3"] by (simp_all add: state_of_def)
    from went_on(2) show ?thesis
    proof (cases rule: and_then_cases)
      case (thrown e)
      then show ?thesis
        using sendMessageFrames_frame(1,2) [of s3 ?cid ?n "m_content m" "m_properties m" "Inl e"] s3
        by simp
    next
      case (went_on s4)
      from went_on(1) have s4: "queues s4 = queues s3" "chanHeap s4 = chanHeap s3"
        using sendMessageFrames_frame(1,2) [of s3 ?cid ?n "m_content m" "m_properties m" "Inr s4"]
        by (simp_all add: state_of_def)
      from went_on(2) show ?thesis
        using s3 s4 by (auto simp add: state_of_def split: if_splits)
    qed
  qed
  then show "queues (state_of r) = jsmap_set (queues s) (c_queueName c) (q\<lparr>messages := ms\<rparr>)"
    and "chanHeap (state_of r) = (chanHeap s)(c_channel c := tracked s c m)"
    by simp_all
qed

lemma deliverToConsumer_ends:
  assumes "8 < frameMax (connHeap s (ch_connection (chanHeap s (c_channel c))))"
  shows "deliverToConsumer s c \<noteq> None"
proof (cases "canReceive s c")
  case False
  then show ?thesis by (simp add: deliverToConsumer_skip)
next
  case True
  show ?thesis
  proof (cases "jsmap_get (queues s) (c_queueName c)")
    case None
    then show ?thesis by (simp add: deliverToConsumer_skip)
  next
    case (Some q)
    show ?thesis
    proof (cases "messages q")
      case Nil
      with Some show ?thesis by (simp add: deliverToConsumer_skip)
    next
      case (Cons m ms)
      have e: "\<And>s3 b. sendBuilt s' cid b = Some (Inr s3) \<Longrightarrow>
                 frameMax (connHeap s3 cid') = frameMax (connHeap s' cid')" for s' cid cid'
        using sendBuilt_frame(6) by (fastforce simp add: state_of_def)
      show ?thesis
        using True Some Cons assms
        by (auto simp add: deliverToConsumer_def dequeue_def Let_def nextDeliveryTag_def
            and_then_def sendBuilt_def sendMessageFrames_ends
            split: option.splits sum.splits prod.splits)
    qed
  qed
qed
subsection \<open>Prefetch and consumer dispatch (claim C1)\<close>

text \<open>
  Claim C1, as the code has it: consumer dispatch keeps the number of unacked entries of
  every channel within a non-zero \<^verbatim>\<open>prefetchCount\<close>. For every channel (address \<open>a\<close>)
  whose \<^verbatim>\<open>prefetchCount\<close> is \<open>N > 0\<close> and that holds at most \<open>N\<close> unacked entries,
  every call of \<open>deliverToConsumer\<close> that returns or throws leaves, in the state it
  returns or throws in, \<open>N\<close> as it was and at most \<open>N\<close> unacked entries on that channel;
  and the call does return or throw (it does not go on forever) whenever the negotiated
  frame size of the connection of the consumer is above 8. (The \<^verbatim>\<open>Basic.Get\<close> handler is
  not covered: it does not consult the prefetch count, see the counterexample.)
\<close>

theorem deliverToConsumer_keeps_prefetch:
  assumes "0 < prefetchCount (qos (chanHeap s a))"
    and "getUnackedCount (chanHeap s a) \<le> prefetchCount (qos (chanHeap s a))"
  shows "(8 < frameMax (connHeap s (ch_connection (chanHeap s (c_channel c))))
           \<longrightarrow> deliverToConsumer s c \<noteq> None)
       \<and> (\<forall>r. deliverToConsumer s c = Some r \<longrightarrow>
             prefetchCount (qos (chanHeap (state_of r) a)) = prefetchCount (qos (chanHeap s a))
           \<and> getUnackedCount (chanHeap (state_of r) a)
               \<le> prefetchCount (qos (chanHeap (state_of r) a)))"
proof (intro conjI impI allI)
  assume "8 < frameMax (connHeap s (ch_connection (chanHeap s (c_channel c))))"
  then show "deliverToConsumer s c \<noteq> None" by (rule deliverToConsumer_ends)
next
  fix r
  assume r: "deliverToConsumer s c = Some r"
  have "prefetchCount (qos (chanHeap (state_of r) a)) = prefetchCount (qos (chanHeap s a))
           \<and> getUnackedCount (chanHeap (state_of r) a)
               \<le> prefetchCount (qos (chanHeap (state_of r) a))"
  proof (cases "canReceive s c")
    case False
    with r assms show ?thesis by (auto simp add: deliverToConsumer_skip state_of_def)
  next
    case True
    show ?thesis
    proof (cases "jsmap_get (queues s) (c_queueName c)")
      case None
      with r assms show ?thesis by (auto simp add: deliverToConsumer_skip state_of_def)
    next
      case (Some q)
      show ?thesis
      proof (cases "messages q")
        case Nil
        with Some r assms show ?thesis by (auto simp add: deliverToConsumer_skip state_of_def)
      next
        case (Cons m ms)
        have h: "chanHeap (state_of r) = (chanHeap s)(c_channel c := tracked s c m)"
          by (rule deliverToConsumer_dispatch(2) [OF True Some Cons r])
        show ?thesis
        proof (cases "a = c_channel c")
          case False
          with h assms show ?thesis by simp
        next
          case a: True
          from True assms a
          have lt: "length (unackedMessages (chanHeap s a)) < prefetchCount (qos (chanHeap s a))"
            by (simp add: canReceive_iff getUnackedCount_def)
          have "length (jsmap_set (unackedMessages (chanHeap s a)) k v)
                  \<le> prefetchCount (qos (chanHeap s a))" for k v
            using lt length_jsmap_set [of "unackedMessages (chanHeap s a)" k v] by linarith
          with h a assms show ?thesis
            by (simp add: getUnackedCount_def trackUnacked_def tracked_def)
        qed
      qed
    qed
  qed
  then show "prefetchCount (qos (chanHeap (state_of r) a)) = prefetchCount (qos (chanHeap s a))"
    and "getUnackedCount (chanHeap (state_of r) a)
           \<le> prefetchCount (qos (chanHeap (state_of r) a))" by simp_all
qed

text \<open>
  Witness: \<^verbatim>\<open>prefetchCount = 2\<close>, one unacked entry, one message waiting; the dispatch
  returns and takes the count to 2.
\<close>

theorem deliverToConsumer_keeps_prefetch_witness:
  "0 < prefetchCount (qos (chanHeap broker_prefetch2 0))
   \<and> getUnackedCount (chanHeap broker_prefetch2 0) \<le> prefetchCount (qos (chanHeap broker_prefetch2 0))
   \<and> returned (deliverToConsumer broker_prefetch2 consumer1) \<noteq> None
   \<and> getUnackedCount (chanHeap (the (returned (deliverToConsumer broker_prefetch2 consumer1))) 0) = 2
   \<and> getUnackedCount (chanHeap (the (returned (deliverToConsumer broker_prefetch2 consumer1))) 0)
        \<le> prefetchCount (qos (chanHeap (the (returned (deliverToConsumer broker_prefetch2 consumer1))) 0))"
proof -
  have h1: "0 < prefetchCount (qos (chanHeap broker_prefetch2 0))" by code_simp
  have h2: "getUnackedCount (chanHeap broker_prefetch2 0)
              \<le> prefetchCount (qos (chanHeap broker_prefetch2 0))" by code_simp
  have h3: "returned (deliverToConsumer broker_prefetch2 consumer1) \<noteq> None" by code_simp
  have h4: "getUnackedCount (chanHeap (the (returned (deliverToConsumer broker_prefetch2 consumer1))) 0) = 2"
    by code_simp
  from h3 obtain s' where s': "deliverToConsumer broker_prefetch2 consumer1 = Some (Inr s')"
    by (auto simp add: returned_def split: option.splits sum.splits)
  from deliverToConsumer_keeps_prefetch [OF h1 h2, of consumer1] s'
  have "getUnackedCount (chanHeap (state_of (Inr s')) 0)
          \<le> prefetchCount (qos (chanHeap (state_of (Inr s')) 0))"
    by blast
  with s' h1 h2 h3 h4 show ?thesis by (simp add: returned_def state_of_def)
qed

text \<open>
  Counterexample to claim C1 as stated: with \<^verbatim>\<open>prefetchCount = 1\<close> and one unacked entry,
  \<^verbatim>\<open>Basic.Get\<close> with \<^verbatim>\<open>noAck = false\<close> on a non-empty queue returns and leaves two
  unacked entries on the channel.
\<close>

theorem basic_get_exceeds_prefetch:
  "prefetchCount (qos (chanHeap broker_prefetch1 0)) = 1
   \<and> getUnackedCount (chanHeap broker_prefetch1 0) = 1
   \<and> returned (handleBasicMethod broker_prefetch1 ''c1'' 1 (Get ''q'' False)) \<noteq> None
   \<and> prefetchCount (qos (chanHeap (the (returned (handleBasicMethod broker_prefetch1 ''c1'' 1 (Get ''q'' False)))) 0)) = 1
   \<and> getUnackedCount (chanHeap (the (returned (handleBasicMethod broker_prefetch1 ''c1'' 1 (Get ''q'' False)))) 0) = 2"
  by code_simp

subsection \<open>Dispatch to a closed channel (claim C3)\<close>

text \<open>
  Claim C3 says that a message is dispatched to a consumer only if the channel of the
  consumer is open. \<open>deliverToConsumer\<close> tests \<^verbatim>\<open>consumer.canReceive()\<close>, which reads the
  flow flag and the prefetch count of the channel and not its state. The consumer of
  \<open>broker_consuming\<close> is on the open channel 1 of \<open>c1\<close>. When the heartbeat timer of \<open>c1\<close>
  expires, \<^verbatim>\<open>Connection.close\<close> closes the channel and the connection, and the consumer
  stays in the registry of the broker. A message that \<open>c2\<close> then publishes to the queue
  is dispatched to that consumer: it leaves the queue and is tracked as unacked under
  tag 1 on the closed channel, and nothing is written to the closed connection.
\<close>

theorem dispatch_after_heartbeat_timeout:
  "ch_state (chanHeap broker_consuming 0) = ChOpen
   \<and> ch_state (chanHeap broker_timed_out 0) = ChClosed
   \<and> conn_state (connHeap broker_timed_out ''c1'') = ConnClosed
   \<and> getByQueue (consumers broker_timed_out) ''q'' = [consumer1]
   \<and> messages (the (jsmap_get (queues broker_timed_out) ''q'')) = []
   \<and> returned (publish_to_q broker_timed_out) \<noteq> None
   \<and> messages (the (jsmap_get (queues (the (returned (publish_to_q broker_timed_out)))) ''q'')) = []
   \<and> map (\<lambda>(t, u). (t, m_content (u_message u), u_consumerTag u))
        (unackedMessages (chanHeap (the (returned (publish_to_q broker_timed_out))) 0))
       = [(1, [7], ''ct'')]
   \<and> ch_state (chanHeap (the (returned (publish_to_q broker_timed_out))) 0) = ChClosed
   \<and> sent (connHeap (the (returned (publish_to_q broker_timed_out))) ''c1'') = []"
  by code_simp
subsection \<open>Requeueing unacked messages (claim C2)\<close>

text \<open>
  The requeue loop, queue by queue: the messages of the entries of a queue are put in
  front of it one by one (so the last entry ends up first) or appended to it in order; a
  queue that no longer exists gets nothing.
\<close>

lemma setQueue_frame [simp]:
  "chanHeap (setQueue s n q) = chanHeap s"
  "connHeap (setQueue s n q) = connHeap s"
  "consumers (setQueue s n q) = consumers s"
  "store_log (setQueue s n q) = store_log s"
  "immediates (setQueue s n q) = immediates s"
  "bindings (setQueue s n q) = bindings s"
  "queues (setQueue s n q) = jsmap_set (queues s) n q"
  by (simp_all add: setQueue_def)

lemma setChannel_frame [simp]:
  "queues (setChannel s a ch) = queues s"
  "connHeap (setChannel s a ch) = connHeap s"
  "consumers (setChannel s a ch) = consumers s"
  "store_log (setChannel s a ch) = store_log s"
  "immediates (setChannel s a ch) = immediates s"
  "bindings (setChannel s a ch) = bindings s"
  "chanHeap (setChannel s a ch) = (chanHeap s)(a := ch)"
  by (simp_all add: setChannel_def)

lemma setChannel_same [simp]: "setChannel s a (chanHeap s a) = s"
  by (simp add: setChannel_def)

lemma requeueUnacked_Cons:
  "requeueUnacked s (u # us) front =
     requeueUnacked
       (case jsmap_get (queues s) (u_queueName u) of
          None \<Rightarrow> s
        | Some q \<Rightarrow> setQueue s (u_queueName u) (requeue q (u_message u) front))
       us front"
  by (simp add: requeueUnacked_def)

lemma requeueUnacked_frame_all:
  "chanHeap (requeueUnacked s us front) = chanHeap s
   \<and> connHeap (requeueUnacked s us front) = connHeap s
   \<and> consumers (requeueUnacked s us front) = consumers s
   \<and> store_log (requeueUnacked s us front) = store_log s
   \<and> immediates (requeueUnacked s us front) = immediates s"
proof (induction us arbitrary: s)
  case Nil
  show ?case by (simp add: requeueUnacked_def)
next
  case (Cons u us)
  show ?case
    by (cases "jsmap_get (queues s) (u_queueName u)") (simp_all add: requeueUnacked_Cons Cons.IH)
qed

lemma requeueUnacked_frame [simp]:
  "chanHeap (requeueUnacked s us front) = chanHeap s"
  "connHeap (requeueUnacked s us front) = connHeap s"
  "consumers (requeueUnacked s us front) = consumers s"
  "store_log (requeueUnacked s us front) = store_log s"
  "immediates (requeueUnacked s us front) = immediates s"
  by (simp_all add: requeueUnacked_frame_all)

lemma requeueUnacked_queue:
  "jsmap_get (queues (requeueUnacked s us front)) qn =
     map_option
       (\<lambda>q. q\<lparr>messages :=
          (if front then rev (map u_message (filter (\<lambda>u. u_queueName u = qn) us)) @ messages q
           else messages q @ map u_message (filter (\<lambda>u. u_queueName u = qn) us))\<rparr>)
       (jsmap_get (queues s) qn)"
proof (induction us arbitrary: s)
  case Nil
  show ?case
    by (cases "jsmap_get (queues s) qn") (simp_all add: requeueUnacked_def)
next
  case (Cons u us)
  show ?case
  proof (cases "jsmap_get (queues s) (u_queueName u)")
    case None
    then show ?thesis
      by (cases "jsmap_get (queues s) qn")
         (auto simp add: requeueUnacked_Cons Cons.IH)
  next
    case (Some q)
    then show ?thesis
      by (cases "jsmap_get (queues s) qn")
         (auto simp add: requeueUnacked_Cons Cons.IH jsmap_get_set requeue_def)
  qed
qed

lemma jsmap_delete_absent: "jsmap_get m k = None \<Longrightarrow> jsmap_delete m k = m"
  by (induction m) (auto simp: jsmap_delete_def split: if_splits)

lemma ack_single:
  "snd (ack ch t False) = ch\<lparr>unackedMessages := jsmap_delete (unackedMessages ch) t\<rparr>"
  by (cases "jsmap_get (unackedMessages ch) t") (simp_all add: ack_def jsmap_delete_absent)

lemma clear_unacked:
  "foldl (\<lambda>ch u. snd (ack ch (u_deliveryTag u) False)) ch us =
     ch\<lparr>unackedMessages :=
          filter (\<lambda>kv. fst kv \<notin> set (map u_deliveryTag us)) (unackedMessages ch)\<rparr>"
proof (induction us arbitrary: ch)
  case Nil
  show ?case by simp
next
  case (Cons u us)
  have f: "filter (\<lambda>kv. fst kv \<notin> set (map u_deliveryTag us))
          (jsmap_delete (unackedMessages ch) (u_deliveryTag u))
        = filter (\<lambda>kv. fst kv \<notin> set (map u_deliveryTag (u # us))) (unackedMessages ch)"
    by (auto simp: jsmap_delete_def intro: filter_cong)
  have "foldl (\<lambda>ch u. snd (ack ch (u_deliveryTag u) False)) ch (u # us)
        = foldl (\<lambda>ch u. snd (ack ch (u_deliveryTag u) False))
            (snd (ack ch (u_deliveryTag u) False)) us"
    by (simp only: foldl.simps)
  also have "\<dots> = (snd (ack ch (u_deliveryTag u) False))\<lparr>unackedMessages :=
          filter (\<lambda>kv. fst kv \<notin> set (map u_deliveryTag us))
            (unackedMessages (snd (ack ch (u_deliveryTag u) False)))\<rparr>"
    by (rule Cons.IH)
  also have "\<dots> = ch\<lparr>unackedMessages :=
          filter (\<lambda>kv. fst kv \<notin> set (map u_deliveryTag (u # us))) (unackedMessages ch)\<rparr>"
    unfolding ack_single using f by simp
  finally show ?case .
qed

lemma clear_all_unacked:
  assumes "list_all (\<lambda>tu. u_deliveryTag (snd tu) = fst tu) m"
  shows "filter (\<lambda>kv. fst kv \<notin> set (map u_deliveryTag (map snd m))) m = []"
  using assms by (auto simp: filter_empty_conv list_all_iff image_iff)

text \<open>
  Claim C2, as the code has it. \<^verbatim>\<open>Basic.Recover(requeue)\<close> puts every unacked message of
  the channel whose source queue still exists back on that queue, for both values of
  \<^verbatim>\<open>requeue\<close>, and the positions are the other way round than claimed: the handler
  calls \<^verbatim>\<open>queue.requeue(message, !args.requeue)\<close>, so with \<^verbatim>\<open>requeue = true\<close> the
  messages are appended at the tail in delivery order, and with \<^verbatim>\<open>requeue = false\<close> each
  is put at the head (the one delivered last ends up first). When every entry of the
  unacked map is stored under its own delivery tag (as \<^verbatim>\<open>trackUnacked\<close> stores it),
  the map is empty afterwards. On an open channel the handler is this requeue, then
  \<^verbatim>\<open>Recover-Ok\<close> is built and sent, then a delivery attempt for each consumer of the
  channel.
\<close>

theorem recover_requeue_position:
  "jsmap_get (queues (recoverRequeue s a requeue')) qn =
     map_option
       (\<lambda>q. q\<lparr>messages :=
          (if requeue'
           then messages q @ map u_message
                  (filter (\<lambda>u. u_queueName u = qn) (getUnackedMessages (chanHeap s a)))
           else rev (map u_message
                  (filter (\<lambda>u. u_queueName u = qn) (getUnackedMessages (chanHeap s a))))
                @ messages q)\<rparr>)
       (jsmap_get (queues s) qn)
   \<and> (list_all (\<lambda>tu. u_deliveryTag (snd tu) = fst tu) (unackedMessages (chanHeap s a))
        \<longrightarrow> unackedMessages (chanHeap (recoverRequeue s a requeue') a) = [])
   \<and> (jsmap_get (channels (connHeap s cid)) n = Some a \<and> ch_state (chanHeap s a) = ChOpen
        \<longrightarrow> handleBasicMethod s cid n (Recover requeue') =
              and_then (sendBuilt (recoverRequeue s a requeue') cid (buildBasicRecoverOkFrame n))
                (\<lambda>s3. redeliverToChannel s3
                   (getConsumers (chanHeap (recoverRequeue s a requeue') a))))"
proof (intro conjI impI)
  show "jsmap_get (queues (recoverRequeue s a requeue')) qn =
     map_option
       (\<lambda>q. q\<lparr>messages :=
          (if requeue'
           then messages q @ map u_message
                  (filter (\<lambda>u. u_queueName u = qn) (getUnackedMessages (chanHeap s a)))
           else rev (map u_message
                  (filter (\<lambda>u. u_queueName u = qn) (getUnackedMessages (chanHeap s a))))
                @ messages q)\<rparr>)
       (jsmap_get (queues s) qn)"
    by (cases requeue') (simp_all add: recoverRequeue_def Let_def requeueUnacked_queue)
next
  assume "list_all (\<lambda>tu. u_deliveryTag (snd tu) = fst tu) (unackedMessages (chanHeap s a))"
  from clear_all_unacked [OF this]
  show "unackedMessages (chanHeap (recoverRequeue s a requeue') a) = []"
    unfolding recoverRequeue_def Let_def clear_unacked getUnackedMessages_def jsmap_values_def
    by simp
next
  assume "jsmap_get (channels (connHeap s cid)) n = Some a \<and> ch_state (chanHeap s a) = ChOpen"
  then show "handleBasicMethod s cid n (Recover requeue') =
              and_then (sendBuilt (recoverRequeue s a requeue') cid (buildBasicRecoverOkFrame n))
                (\<lambda>s3. redeliverToChannel s3
                   (getConsumers (chanHeap (recoverRequeue s a requeue') a)))"
    by (simp add: handleBasicMethod_def basicRecover_def and_then_def sendBuilt_def
        split: sum.splits)
qed

text \<open>
  Witness: \<open>msg1\<close> and \<open>msg2\<close> are unacked (delivered in this order) and \<open>msg3\<close> waits
  in the queue.
\<close>

theorem recover_requeue_position_witness:
  "list_all (\<lambda>tu. u_deliveryTag (snd tu) = fst tu) (unackedMessages (chanHeap broker_two_unacked 0))
   \<and> jsmap_get (channels (connHeap broker_two_unacked ''c1'')) 1 = Some 0
   \<and> ch_state (chanHeap broker_two_unacked 0) = ChOpen
   \<and> unackedMessages (chanHeap (recoverRequeue broker_two_unacked 0 True) 0) = []
   \<and> map_option messages (jsmap_get (queues (recoverRequeue broker_two_unacked 0 True)) ''q'')
       = Some [msg3, msg1, msg2]
   \<and> map_option messages (jsmap_get (queues (recoverRequeue broker_two_unacked 0 False)) ''q'')
       = Some [msg2, msg1, msg3]
   \<and> handleBasicMethod broker_two_unacked ''c1'' 1 (Recover True) =
        and_then (sendBuilt (recoverRequeue broker_two_unacked 0 True) ''c1''
                    (buildBasicRecoverOkFrame 1))
          (\<lambda>s3. redeliverToChannel s3
             (getConsumers (chanHeap (recoverRequeue broker_two_unacked 0 True) 0)))"
proof -
  have h1: "list_all (\<lambda>tu. u_deliveryTag (snd tu) = fst tu)
              (unackedMessages (chanHeap broker_two_unacked 0))" by code_simp
  have h2: "jsmap_get (channels (connHeap broker_two_unacked ''c1'')) 1 = Some 0" by code_simp
  have h3: "ch_state (chanHeap broker_two_unacked 0) = ChOpen" by code_simp
  have q: "jsmap_get (queues broker_two_unacked) ''q''
             = Some ((queue_addConsumer queue_q)\<lparr>messages := [msg3]\<rparr>)" by code_simp
  have u: "getUnackedMessages (chanHeap broker_two_unacked 0) = [unacked1, unacked2]"
    by code_simp
  have n: "u_queueName unacked1 = ''q''" "u_queueName unacked2 = ''q''"
    "u_message unacked1 = msg1" "u_message unacked2 = msg2"
    by (simp_all add: unacked1_def unacked2_def)
  note t = recover_requeue_position [of broker_two_unacked 0 _ "''q''" "''c1''" 1]
  from t [of True] h1 have a: "unackedMessages (chanHeap (recoverRequeue broker_two_unacked 0 True) 0) = []"
    by blast
  from t [of True] have b: "map_option messages (jsmap_get (queues (recoverRequeue broker_two_unacked 0 True)) ''q'')
       = Some [msg3, msg1, msg2]"
    by (simp add: q u n)
  from t [of False] have c: "map_option messages (jsmap_get (queues (recoverRequeue broker_two_unacked 0 False)) ''q'')
       = Some [msg2, msg1, msg3]"
    by (simp add: q u n)
  from t [of True] h2 h3 have d: "handleBasicMethod broker_two_unacked ''c1'' 1 (Recover True) =
        and_then (sendBuilt (recoverRequeue broker_two_unacked 0 True) ''c1''
                    (buildBasicRecoverOkFrame 1))
          (\<lambda>s3. redeliverToChannel s3
             (getConsumers (chanHeap (recoverRequeue broker_two_unacked 0 True) 0)))"
    by blast
  from h1 h2 h3 a b c d show ?thesis by simp
qed

text \<open>
  Counterexample to claim C2 as stated: the queue holds \<open>id3\<close>, the messages \<open>id1\<close> and
  \<open>id2\<close> are unacked, and the flow of the channel is off (so nothing is delivered again).
  \<^verbatim>\<open>Basic.Recover(requeue = true)\<close> leaves them at the tail of the queue, not at the
  head; \<^verbatim>\<open>requeue = false\<close> puts them at the head.
\<close>

theorem recover_true_requeues_at_tail:
  "map m_id (messages (the (jsmap_get (queues broker_two_unacked) ''q''))) = [''id3'']
   \<and> map (\<lambda>u. m_id (u_message u)) (getUnackedMessages (chanHeap broker_two_unacked 0))
       = [''id1'', ''id2'']
   \<and> returned (handleBasicMethod broker_two_unacked ''c1'' 1 (Recover True)) \<noteq> None
   \<and> map m_id (messages (the (jsmap_get (queues
        (the (returned (handleBasicMethod broker_two_unacked ''c1'' 1 (Recover True))))) ''q'')))
       = [''id3'', ''id1'', ''id2'']
   \<and> returned (handleBasicMethod broker_two_unacked ''c1'' 1 (Recover False)) \<noteq> None
   \<and> map m_id (messages (the (jsmap_get (queues
        (the (returned (handleBasicMethod broker_two_unacked ''c1'' 1 (Recover False))))) ''q'')))
       = [''id2'', ''id1'', ''id3'']"
  by code_simp

subsection \<open>Closing a channel and losing a connection (claim C4)\<close>

text \<open>
  \<^verbatim>\<open>removeByChannel\<close> leaves no consumer of the channel in the registry; releasing the
  consumers changes consumer counts only; closing the channel is what
  \<^verbatim>\<open>Connection.closeChannel\<close> does last.
\<close>

lemma consumers_remove_entries:
  "cr_consumers (consumers_remove r tag) = jsmap_delete (cr_consumers r) tag"
  by (cases "jsmap_get (cr_consumers r) tag")
     (simp_all add: consumers_remove_def jsmap_delete_absent)

lemma removeByChannel_fold:
  "cr_consumers (snd (foldl (\<lambda>(removed, r') (tag, c).
              if c_channel c = a then (removed @ [c], consumers_remove r' tag)
              else (removed, r')) (acc, r) xs))
   = filter (\<lambda>e. fst e \<notin> fst ` {tc \<in> set xs. c_channel (snd tc) = a}) (cr_consumers r)"
proof (induction xs arbitrary: acc r)
  case Nil
  show ?case by simp
next
  case (Cons x xs)
  obtain tag c where x: "x = (tag, c)" by (cases x)
  show ?case
  proof (cases "c_channel c = a")
    case True
    have e: "fst ` {tc \<in> set (x # xs). c_channel (snd tc) = a}
          = insert tag (fst ` {tc \<in> set xs. c_channel (snd tc) = a})"
      using True x by (auto simp: image_iff intro: bexI [where x = "(tag, c)"])
    have "filter (\<lambda>e. fst e \<notin> fst ` {tc \<in> set xs. c_channel (snd tc) = a})
            (jsmap_delete (cr_consumers r) tag)
          = filter (\<lambda>e. fst e \<notin> fst ` {tc \<in> set (x # xs). c_channel (snd tc) = a})
              (cr_consumers r)"
      unfolding e jsmap_delete_def by (auto intro: filter_cong)
    with True x show ?thesis
      by (simp add: Cons.IH consumers_remove_entries)
  next
    case False
    have "fst ` {tc \<in> set (x # xs). c_channel (snd tc) = a}
          = fst ` {tc \<in> set xs. c_channel (snd tc) = a}"
      using False x by auto
    with False x show ?thesis
      by (simp add: Cons.IH)
  qed
qed

lemma removeByChannel_none_left:
  "list_all (\<lambda>tc. c_channel (snd tc) \<noteq> a) (cr_consumers (snd (removeByChannel r a)))"
  unfolding removeByChannel_def removeByChannel_fold
  by (auto simp: list_all_iff image_iff)

lemma releaseConsumers_Cons:
  "releaseConsumers s (c # cs) =
     releaseConsumers
       (case jsmap_get (queues s) (c_queueName c) of
          None \<Rightarrow> s
        | Some q \<Rightarrow> setQueue s (c_queueName c) (queue_removeConsumer q))
       cs"
  by (simp add: releaseConsumers_def)

lemma releaseConsumers_frame_all:
  "chanHeap (releaseConsumers s cs) = chanHeap s
   \<and> connHeap (releaseConsumers s cs) = connHeap s
   \<and> consumers (releaseConsumers s cs) = consumers s
   \<and> map_option messages (jsmap_get (queues (releaseConsumers s cs)) qn)
       = map_option messages (jsmap_get (queues s) qn)"
proof (induction cs arbitrary: s)
  case Nil
  show ?case by (simp add: releaseConsumers_def)
next
  case (Cons c cs)
  show ?case
    by (cases "jsmap_get (queues s) (c_queueName c)")
       (auto simp add: releaseConsumers_Cons Cons.IH jsmap_get_set queue_removeConsumer_def)
qed

lemma releaseConsumers_frame [simp]:
  "chanHeap (releaseConsumers s cs) = chanHeap s"
  "connHeap (releaseConsumers s cs) = connHeap s"
  "consumers (releaseConsumers s cs) = consumers s"
  by (simp_all add: releaseConsumers_frame_all)

lemma channel_close_frame [simp]:
  "queues (channel_close s a) = queues s"
  "consumers (channel_close s a) = consumers s"
  "ch_state (chanHeap (channel_close s a) a) = ChClosed"
  by (simp_all add: channel_close_def Let_def)

lemma connection_closeChannel_frame [simp]:
  "queues (connection_closeChannel s cid n) = queues s"
  "consumers (connection_closeChannel s cid n) = consumers s"
  by (cases "jsmap_get (channels (connHeap s cid)) n";
      simp add: connection_closeChannel_def Let_def)+

lemma jsmap_get_delete: "jsmap_get (jsmap_delete m k) k = None"
  by (induction m) (auto simp: jsmap_delete_def)

lemma connection_closeChannel_closes:
  assumes "jsmap_get (channels (connHeap s cid)) n = Some a"
  shows "ch_state (chanHeap (connection_closeChannel s cid n) a) = ChClosed
       \<and> jsmap_get (channels (connHeap (connection_closeChannel s cid n) cid)) n = None"
  using assms by (simp add: connection_closeChannel_def Let_def jsmap_get_delete)

text \<open>
  What \<^verbatim>\<open>cleanupChannel\<close> does (it is run when a channel is closed and, for each channel
  that the connection still has, by \<^verbatim>\<open>cleanupConnection\<close>): every unacked message whose
  source queue still exists is put at the head of that queue, one by one in delivery
  order, so that their relative order is reversed; every consumer of the channel is
  removed from the registry of the broker, and the channel object ends closed and out of
  the map of its connection.
\<close>

lemma cleanupChannel_requeues:
  "map_option messages (jsmap_get (queues (cleanupChannel s a cid)) qn) =
     map_option
       (\<lambda>q. rev (map u_message
                (filter (\<lambda>u. u_queueName u = qn) (getUnackedMessages (chanHeap s a))))
             @ messages q)
       (jsmap_get (queues s) qn)
   \<and> list_all (\<lambda>tc. c_channel (snd tc) \<noteq> a)
        (cr_consumers (consumers (cleanupChannel s a cid)))
   \<and> (jsmap_get (channels (connHeap s cid)) (channelNumber (chanHeap s a)) = Some a \<longrightarrow>
         ch_state (chanHeap (cleanupChannel s a cid) a) = ChClosed
       \<and> jsmap_get (channels (connHeap (cleanupChannel s a cid) cid))
           (channelNumber (chanHeap s a)) = None)"
proof -
  obtain removed reg where rb: "removeByChannel (consumers s) a = (removed, reg)"
    by (cases "removeByChannel (consumers s) a")
  let ?s1 = "releaseConsumers (s\<lparr>consumers := reg\<rparr>) removed"
  let ?s2 = "requeueUnacked ?s1 (getUnackedMessages (chanHeap ?s1 a)) True"
  have cc: "cleanupChannel s a cid = connection_closeChannel ?s2 cid (channelNumber (chanHeap ?s2 a))"
    by (simp add: cleanupChannel_def rb Let_def)
  have q1: "map_option messages (jsmap_get (queues ?s1) qn)
            = map_option messages (jsmap_get (queues s) qn)"
    using releaseConsumers_frame_all [of "s\<lparr>consumers := reg\<rparr>" removed qn] by simp
  have "map_option messages (jsmap_get (queues ?s2) qn)
        = map_option
       (\<lambda>q. rev (map u_message
                (filter (\<lambda>u. u_queueName u = qn) (getUnackedMessages (chanHeap s a))))
             @ messages q)
       (jsmap_get (queues ?s1) qn)"
    by (simp add: requeueUnacked_queue option.map_comp comp_def)
  also have "\<dots> = map_option
       (\<lambda>q. rev (map u_message
                (filter (\<lambda>u. u_queueName u = qn) (getUnackedMessages (chanHeap s a))))
             @ messages q)
       (jsmap_get (queues s) qn)"
    using q1 by (cases "jsmap_get (queues ?s1) qn"; cases "jsmap_get (queues s) qn") auto
  finally have A: "map_option messages (jsmap_get (queues (cleanupChannel s a cid)) qn) =
     map_option
       (\<lambda>q. rev (map u_message
                (filter (\<lambda>u. u_queueName u = qn) (getUnackedMessages (chanHeap s a))))
             @ messages q)
       (jsmap_get (queues s) qn)"
    by (simp add: cc)
  have "consumers (cleanupChannel s a cid) = reg" by (simp add: cc)
  moreover have "reg = snd (removeByChannel (consumers s) a)" by (simp add: rb)
  ultimately have B: "list_all (\<lambda>tc. c_channel (snd tc) \<noteq> a)
        (cr_consumers (consumers (cleanupChannel s a cid)))"
    by (simp add: removeByChannel_none_left)
  have C: "jsmap_get (channels (connHeap s cid)) (channelNumber (chanHeap s a)) = Some a \<longrightarrow>
         ch_state (chanHeap (cleanupChannel s a cid) a) = ChClosed
       \<and> jsmap_get (channels (connHeap (cleanupChannel s a cid) cid))
           (channelNumber (chanHeap s a)) = None"
  proof
    assume "jsmap_get (channels (connHeap s cid)) (channelNumber (chanHeap s a)) = Some a"
    then have "jsmap_get (channels (connHeap ?s2 cid)) (channelNumber (chanHeap ?s2 a)) = Some a"
      by simp
    from connection_closeChannel_closes [OF this]
    show "ch_state (chanHeap (cleanupChannel s a cid) a) = ChClosed
       \<and> jsmap_get (channels (connHeap (cleanupChannel s a cid) cid))
           (channelNumber (chanHeap s a)) = None"
      by (simp add: cc)
  qed
  from A B C show ?thesis by blast
qed

text \<open>
  The order of requeued entries: \<open>id1\<close> was delivered before \<open>id2\<close>, and after the
  cleanup \<open>id2\<close> is at the head of the queue, before \<open>id1\<close>.
\<close>

lemma cleanupChannel_reverses_order:
  "map m_id (messages (the (jsmap_get (queues broker_two_unacked) ''q''))) = [''id3'']
   \<and> map (\<lambda>u. m_id (u_message u)) (getUnackedMessages (chanHeap broker_two_unacked 0))
       = [''id1'', ''id2'']
   \<and> map m_id (messages (the (jsmap_get (queues (cleanupChannel broker_two_unacked 0 ''c1'')) ''q'')))
       = [''id2'', ''id1'', ''id3'']"
  by code_simp

text \<open>
  Claim C4 says that when a connection is lost, every unacked entry of its channels is
  requeued and their consumers are cancelled. A connection that the heartbeat timer
  gives up is closed by \<^verbatim>\<open>Connection.close\<close>, which closes its channels itself:
  \<^verbatim>\<open>Channel.close\<close> clears the unacked map, and nothing listens to the event that
  carries the entries. When the socket then closes, \<^verbatim>\<open>cleanupConnection\<close> finds no channel
  left on the connection. In \<open>broker_two_unacked\<close> the messages \<open>id1\<close> and \<open>id2\<close> are
  unacked on channel 1 of \<open>c1\<close> and \<open>id3\<close> waits in the queue; after the timeout and the
  cleanup of \<open>c1\<close> the unacked map is empty, the queue holds \<open>id3\<close> alone, and the
  consumer of the channel is still registered and still counted by the queue.
\<close>

theorem unacked_lost_on_heartbeat_timeout:
  "map (\<lambda>(t, u). (t, m_id (u_message u))) (unackedMessages (chanHeap broker_two_unacked 0))
     = [(1, ''id1''), (2, ''id2'')]
   \<and> map m_id (messages (the (jsmap_get (queues broker_two_unacked) ''q''))) = [''id3'']
   \<and> getByQueue (consumers broker_two_unacked) ''q'' = [consumer1]
   \<and> conn_state (connHeap broker_two_timed_out ''c1'') = ConnClosed
   \<and> channels (connHeap broker_two_timed_out ''c1'') = []
   \<and> unackedMessages (chanHeap (cleanupConnection broker_two_timed_out ''c1'') 0) = []
   \<and> map m_id (messages (the (jsmap_get
        (queues (cleanupConnection broker_two_timed_out ''c1'')) ''q''))) = [''id3'']
   \<and> getByQueue (consumers (cleanupConnection broker_two_timed_out ''c1'')) ''q'' = [consumer1]
   \<and> consumerCount (the (jsmap_get
        (queues (cleanupConnection broker_two_timed_out ''c1'')) ''q'')) = 1
   \<and> connections (cleanupConnection broker_two_timed_out ''c1'') = [''c2'']"
  by code_simp
subsection \<open>Acknowledging an unknown delivery tag (claim C10)\<close>

lemma ack_absent:
  "jsmap_get (unackedMessages ch) t = None \<Longrightarrow> ack ch t False = ([], ch)"
  by (simp add: ack_def)

lemma reject_absent:
  "jsmap_get (unackedMessages ch) t = None \<Longrightarrow> reject ch t = (None, ch)"
  by (simp add: reject_def)

lemma redeliverToChannel_idle:
  assumes "list_all (\<lambda>c. case jsmap_get (cr_consumers (consumers s)) (consumerTag c) of
                           None \<Rightarrow> True
                         | Some c' \<Rightarrow> deliverToConsumer s c' = Some (Inr s)) cs"
  shows "redeliverToChannel s cs = Some (Inr s)"
  using assms by (induction cs) (auto simp add: and_then_def split: option.splits)

text \<open>
  Claim C10, as the code has it. For a delivery tag that is not in the unacked map of the
  channel, \<^verbatim>\<open>Channel.ack\<close>, \<^verbatim>\<open>nack\<close> (both with \<^verbatim>\<open>multiple = false\<close>) and
  \<^verbatim>\<open>reject\<close> return no entry and leave the channel as it is; the \<^verbatim>\<open>Basic.Reject\<close> and
  \<^verbatim>\<open>Basic.Nack\<close> handlers return and leave the whole broker state as it is (unacked
  map, queues, log, and nothing is sent). The \<^verbatim>\<open>Basic.Ack\<close> handler removes no entry
  and deletes nothing for the tag, and then runs the loop that ends it: the handler is
  that loop and nothing else, a call of \<open>deliverToConsumer\<close> for each consumer of the
  channel that the registry of the broker holds, in their order. So it returns and leaves
  the state as it is if each of these calls does.
\<close>

theorem unknown_tag_handlers:
  assumes "jsmap_get (unackedMessages (chanHeap s a)) t = None"
  shows "ack (chanHeap s a) t False = ([], chanHeap s a)
       \<and> reject (chanHeap s a) t = (None, chanHeap s a)
       \<and> nack (chanHeap s a) t False = ([], chanHeap s a)
       \<and> basicReject s a t requeue' = s
       \<and> basicNack s a t False requeue' = s
       \<and> basicAck s a t False = redeliverToChannel s (getConsumers (chanHeap s a))
       \<and> (list_all (\<lambda>c. case jsmap_get (cr_consumers (consumers s)) (consumerTag c) of
                           None \<Rightarrow> True
                         | Some c' \<Rightarrow> deliverToConsumer s c' = Some (Inr s))
             (getConsumers (chanHeap s a))
           \<longrightarrow> basicAck s a t False = Some (Inr s))
       \<and> (jsmap_get (channels (connHeap s cid)) n = Some a \<and> ch_state (chanHeap s a) = ChOpen
           \<longrightarrow> handleBasicMethod s cid n (Reject t requeue') = Some (Inr s)
             \<and> handleBasicMethod s cid n (Nack t False requeue') = Some (Inr s)
             \<and> handleBasicMethod s cid n (Ack t False)
                 = redeliverToChannel s (getConsumers (chanHeap s a)))"
proof -
  have A: "ack (chanHeap s a) t False = ([], chanHeap s a)"
    using assms by (rule ack_absent)
  have R: "reject (chanHeap s a) t = (None, chanHeap s a)"
    using assms by (rule reject_absent)
  have N: "nack (chanHeap s a) t False = ([], chanHeap s a)"
    using A by (simp add: nack_def)
  have r: "basicReject s a t requeue' = s"
    by (simp add: basicReject_def R)
  have n: "basicNack s a t False requeue' = s"
    by (simp add: basicNack_def N nackEntries_def)
  have k: "basicAck s a t False = redeliverToChannel s (getConsumers (chanHeap s a))"
    by (simp add: basicAck_def A deleteAcked_def)
  have i: "list_all (\<lambda>c. case jsmap_get (cr_consumers (consumers s)) (consumerTag c) of
                           None \<Rightarrow> True
                         | Some c' \<Rightarrow> deliverToConsumer s c' = Some (Inr s))
             (getConsumers (chanHeap s a))
           \<longrightarrow> basicAck s a t False = Some (Inr s)"
    using k redeliverToChannel_idle by simp
  have h: "jsmap_get (channels (connHeap s cid)) n = Some a \<and> ch_state (chanHeap s a) = ChOpen
           \<longrightarrow> handleBasicMethod s cid n (Reject t requeue') = Some (Inr s)
             \<and> handleBasicMethod s cid n (Nack t False requeue') = Some (Inr s)
             \<and> handleBasicMethod s cid n (Ack t False)
                 = redeliverToChannel s (getConsumers (chanHeap s a))"
    using r n k by (simp add: handleBasicMethod_def)
  from A R N r n k i h show ?thesis by blast
qed

text \<open>
  Witness: tag 7 is unknown to the channel of \<open>broker_two_unacked\<close>, whose flow is off,
  so that the loop of \<^verbatim>\<open>Basic.Ack\<close> dispatches nothing.
\<close>

theorem unknown_tag_handlers_witness:
  "jsmap_get (unackedMessages (chanHeap broker_two_unacked 0)) 7 = None
   \<and> jsmap_get (channels (connHeap broker_two_unacked ''c1'')) 1 = Some 0
   \<and> ch_state (chanHeap broker_two_unacked 0) = ChOpen
   \<and> list_all (\<lambda>c. case jsmap_get (cr_consumers (consumers broker_two_unacked)) (consumerTag c) of
                           None \<Rightarrow> True
                         | Some c' \<Rightarrow> deliverToConsumer broker_two_unacked c' = Some (Inr broker_two_unacked))
             (getConsumers (chanHeap broker_two_unacked 0))
   \<and> handleBasicMethod broker_two_unacked ''c1'' 1 (Reject 7 True) = Some (Inr broker_two_unacked)
   \<and> handleBasicMethod broker_two_unacked ''c1'' 1 (Nack 7 False True) = Some (Inr broker_two_unacked)
   \<and> handleBasicMethod broker_two_unacked ''c1'' 1 (Ack 7 False) = Some (Inr broker_two_unacked)"
proof -
  have h1: "jsmap_get (unackedMessages (chanHeap broker_two_unacked 0)) 7 = None" by code_simp
  have h2: "jsmap_get (channels (connHeap broker_two_unacked ''c1'')) 1 = Some 0" by code_simp
  have h3: "ch_state (chanHeap broker_two_unacked 0) = ChOpen" by code_simp
  have f: "\<not> canReceive broker_two_unacked consumer1" by code_simp
  have g: "getConsumers (chanHeap broker_two_unacked 0) = [consumer1]" by code_simp
  have l: "jsmap_get (cr_consumers (consumers broker_two_unacked)) (consumerTag consumer1) = Some consumer1"
    by code_simp
  have h4: "list_all (\<lambda>c. case jsmap_get (cr_consumers (consumers broker_two_unacked)) (consumerTag c) of
                           None \<Rightarrow> True
                         | Some c' \<Rightarrow> deliverToConsumer broker_two_unacked c' = Some (Inr broker_two_unacked))
             (getConsumers (chanHeap broker_two_unacked 0))"
    using f by (simp add: g l deliverToConsumer_skip)
  note t = unknown_tag_handlers [OF h1, of _ "''c1''" 1]
  from t [of True] h2 h3 h4
  have "handleBasicMethod broker_two_unacked ''c1'' 1 (Reject 7 True) = Some (Inr broker_two_unacked)
   \<and> handleBasicMethod broker_two_unacked ''c1'' 1 (Nack 7 False True) = Some (Inr broker_two_unacked)
   \<and> handleBasicMethod broker_two_unacked ''c1'' 1 (Ack 7 False) = Some (Inr broker_two_unacked)"
    by metis
  with h1 h2 h3 h4 show ?thesis by simp
qed

text \<open>
  Counterexample to claim C10 as stated: nothing is unacked on the channel, a message
  waits in the queue of its consumer, and \<^verbatim>\<open>Basic.Ack\<close> of the unknown tag 7 takes the
  message out of the queue and adds it to the unacked map under tag 1.
\<close>

theorem ack_unknown_tag_dispatches:
  "jsmap_get (unackedMessages (chanHeap broker_waiting 0)) 7 = None
   \<and> unackedMessages (chanHeap broker_waiting 0) = []
   \<and> map m_id (messages (the (jsmap_get (queues broker_waiting) ''q''))) = [''id1'']
   \<and> returned (handleBasicMethod broker_waiting ''c1'' 1 (Ack 7 False)) \<noteq> None
   \<and> map fst (unackedMessages (chanHeap (the (returned (handleBasicMethod broker_waiting ''c1'' 1 (Ack 7 False)))) 0)) = [1]
   \<and> messages (the (jsmap_get (queues (the (returned (handleBasicMethod broker_waiting ''c1'' 1 (Ack 7 False))))) ''q'')) = []"
  by code_simp
subsection \<open>Exclusive queues (claim C7)\<close>

text \<open>
  \<^verbatim>\<open>Basic.Consume\<close> from a connection that cannot access the queue closes the channel
  with 405 and does nothing else; in \<open>broker_exclusive\<close>, \<^verbatim>\<open>Channel.Close\<close> with 405 is
  what \<open>c2\<close> is sent.
\<close>

lemma consume_exclusive_locked:
  assumes "jsmap_get (queues s) queueName = Some q" and "\<not> canAccess q cid"
  shows "basicConsume s cid n a queueName tag nl na ex nw =
           closeChannelWithError s cid n REPLY_CODE_RESOURCE_LOCKED
             ''Queue is exclusive to another connection''"
  using assms by (simp add: basicConsume_def)

lemma consume_exclusive_locked_example:
  "map_option (\<lambda>s. sent (connHeap s ''c2''))
     (returned (handleBasicMethod broker_exclusive ''c2'' 1
        (Consume ''xq'' ''t'' False False False False)))
   = Some [MethodFrame 1 20 40
       (ChannelCloseArgs 405 ''Queue is exclusive to another connection'' 0 0)]"
  by code_simp

text \<open>
  When the owner \<open>c1\<close> of the exclusive queue \<open>xq\<close> is cleaned up, the queue leaves the
  table of queues and its binding leaves the registry.
\<close>

lemma exclusive_queue_removed_on_close:
  "map fst (queues broker_exclusive) = [''q'', ''xq'']
   \<and> map b_destination (jsmap_values (r_bindings (bindings broker_exclusive))) = [''xq'']
   \<and> map fst (queues (cleanupConnection broker_exclusive ''c1'')) = [''q'']
   \<and> r_bindings (bindings (cleanupConnection broker_exclusive ''c1'')) = []
   \<and> getByDestination (bindings (cleanupConnection broker_exclusive ''c1'')) ''xq'' = []"
  by code_simp

text \<open>
  Claim C7 says that every access to an exclusive queue from another connection, \<^verbatim>\<open>get\<close>
  included, fails with 405. The \<^verbatim>\<open>Basic.Get\<close> handler has no such check: the queue
  \<open>xq\<close> is exclusive to \<open>c1\<close>, \<open>c2\<close> cannot access it, and \<^verbatim>\<open>Basic.Get\<close> on channel 1
  of \<open>c2\<close> is answered with \<^verbatim>\<open>Get-Ok\<close> and the content of the message, which leaves
  the queue.
\<close>

theorem basic_get_ignores_exclusive:
  "exclusiveConnectionId (the (jsmap_get (queues broker_exclusive) ''xq'')) = Some ''c1''
   \<and> \<not> canAccess (the (jsmap_get (queues broker_exclusive) ''xq'')) ''c2''
   \<and> returned (handleBasicMethod broker_exclusive ''c2'' 1 (Get ''xq'' True)) \<noteq> None
   \<and> sent (connHeap (the (returned (handleBasicMethod broker_exclusive ''c2'' 1 (Get ''xq'' True)))) ''c2'')
       = [MethodFrame 1 60 71 (BasicGetOkArgs 1 False [] ''q'' 0),
          ContentHeaderFrame 1 60 3 no_properties,
          ContentBodyFrame 1 [1, 2, 3]]
   \<and> messages (the (jsmap_get (queues
        (the (returned (handleBasicMethod broker_exclusive ''c2'' 1 (Get ''xq'' True))))) ''xq'')) = []"
  by code_simp

subsection \<open>Unroutable publishes (claim C8)\<close>

text \<open>
  \<^verbatim>\<open>completeMessage\<close> for a publish that routes to no queue. With \<^verbatim>\<open>mandatory\<close> set it
  sends \<^verbatim>\<open>Basic.Return\<close> with reply code 313, reply text \<^verbatim>\<open>No route\<close>, the exchange and
  the routing key, and then builds and sends the content frames, with the properties of
  the publish. With \<^verbatim>\<open>mandatory\<close> unset it returns, and only the pending slot of the
  channel is cleared.
\<close>

lemma completeMessage_unroutable:
  assumes "pendingMessage (chanHeap s a) = Some p"
    and "route (setChannel s a ((chanHeap s a)\<lparr>pendingMessage := None\<rparr>))
           (createMessage uuid now (p_exchange p) (p_routingKey p) (concat (bodyChunks p))
              (p_properties p) (p_mandatory p) (p_immediate p)) = []"
  shows "completeMessage uuid now s cid a =
     (if p_mandatory p then
        and_then (sendBuilt (setChannel s a ((chanHeap s a)\<lparr>pendingMessage := None\<rparr>)) cid
                    (buildBasicReturnFrame (channelNumber (chanHeap s a))
                       REPLY_CODE_NO_CONSUMERS ''No route'' (p_exchange p) (p_routingKey p)))
          (\<lambda>s2. sendMessageFrames s2 cid (channelNumber (chanHeap s2 a))
                   (concat (bodyChunks p)) (p_properties p))
      else Some (Inr (setChannel s a ((chanHeap s a)\<lparr>pendingMessage := None\<rparr>))))"
  using assms by (simp add: completeMessage_def Let_def setChannel_def)

lemma completeMessage_drops_message:
  assumes "pendingMessage (chanHeap s a) = Some p"
    and "route (setChannel s a ((chanHeap s a)\<lparr>pendingMessage := None\<rparr>))
           (createMessage uuid now (p_exchange p) (p_routingKey p) (concat (bodyChunks p))
              (p_properties p) (p_mandatory p) (p_immediate p)) = []"
    and "\<not> p_mandatory p"
  shows "completeMessage uuid now s cid a
           = Some (Inr (setChannel s a ((chanHeap s a)\<lparr>pendingMessage := None\<rparr>)))"
  using assms(3) by (simp add: completeMessage_unroutable [OF assms(1,2)])

text \<open>
  On a connection with the default frame size, the mandatory publish of
  \<open>broker_publishing\<close> is returned as claim C8 says.
\<close>

lemma unroutable_publish_returned:
  "map_option (\<lambda>s. sent (connHeap s ''c1''))
     (returned (completeMessage ''u'' 0 broker_publishing ''c1'' 0))
   = Some [MethodFrame 1 60 50 (BasicReturnArgs 313 ''No route'' ''nowhere'' ''k''),
           ContentHeaderFrame 1 60 1 no_properties,
           ContentBodyFrame 1 [7]]"
  by code_simp

text \<open>
  Claim C8 says that every unroutable mandatory publish is returned with its content
  header and body frames. The connection negotiated a frame size of 8 (the handler of
  \<^verbatim>\<open>Tune-Ok\<close> accepts it), the publish is mandatory, has one byte of body and routes
  nowhere: \<^verbatim>\<open>buildContentBodyFrames\<close> loops with a chunk size of 0 and
  \<^verbatim>\<open>completeMessage\<close> never returns, so neither header nor body frame is sent.
\<close>

theorem unroutable_publish_small_frames:
  "map_sum id frameMax (handleTuneOk default_options conn1 [0, 0, 0, 0, 0, 8, 0, 0]) = Inr 8
   \<and> frameMax (connHeap broker_small_frames ''c1'') = 8
   \<and> pendingMessage (chanHeap broker_small_frames 0) = Some pending1
   \<and> p_mandatory pending1
   \<and> route (setChannel broker_small_frames 0
               ((chanHeap broker_small_frames 0)\<lparr>pendingMessage := None\<rparr>))
        (createMessage ''u'' 0 (p_exchange pending1) (p_routingKey pending1)
           (concat (bodyChunks pending1)) (p_properties pending1) (p_mandatory pending1)
           (p_immediate pending1)) = []
   \<and> completeMessage ''u'' 0 broker_small_frames ''c1'' 0 = None"
proof -
  have t: "map_sum id frameMax (handleTuneOk default_options conn1 [0, 0, 0, 0, 0, 8, 0, 0]) = Inr 8"
    by code_simp
  have f: "frameMax (connHeap broker_small_frames ''c1'') = 8" by code_simp
  have p: "pendingMessage (chanHeap broker_small_frames 0) = Some pending1" by code_simp
  have m: "p_mandatory pending1" by code_simp
  have r: "route (setChannel broker_small_frames 0
               ((chanHeap broker_small_frames 0)\<lparr>pendingMessage := None\<rparr>))
        (createMessage ''u'' 0 (p_exchange pending1) (p_routingKey pending1)
           (concat (bodyChunks pending1)) (p_properties pending1) (p_mandatory pending1)
           (p_immediate pending1)) = []"
    by code_simp
  have c: "concat (bodyChunks pending1) = [7]" by code_simp
  have n: "channelNumber (chanHeap broker_small_frames 0) = 1" by code_simp
  have b: "buildBasicReturnFrame 1 REPLY_CODE_NO_CONSUMERS ''No route'' (p_exchange pending1)
             (p_routingKey pending1)
           = Inr (MethodFrame 1 60 50 (BasicReturnArgs 313 ''No route'' ''nowhere'' ''k''))"
    by code_simp
  have h: "buildContentHeaderFrame 1 CLASS_ID_BASIC (length [7::byte]) (p_properties pending1)
           = Inr (ContentHeaderFrame 1 60 1 no_properties)"
    by code_simp
  have d: "buildContentBodyFrames 1 [7] 8 = None"
    by (rule buildContentBodyFrames_diverges) simp_all
  have "buildMessageFrames 1 [7] (p_properties pending1) 8 = None"
    using h d by (simp add: buildMessageFrames_def and_then_def)
  then have s: "sendMessageFrames s' ''c1'' 1 [7] (p_properties pending1) = None"
    if "frameMax (connHeap s' ''c1'') = 8" for s'
    using that by (simp add: sendMessageFrames_def)
  let ?s1 = "setChannel broker_small_frames 0
               ((chanHeap broker_small_frames 0)\<lparr>pendingMessage := None\<rparr>)"
  let ?s2 = "send ?s1 ''c1'' (MethodFrame 1 60 50 (BasicReturnArgs 313 ''No route'' ''nowhere'' ''k''))"
  have sb: "sendBuilt ?s1 ''c1''
              (buildBasicReturnFrame (channelNumber (chanHeap broker_small_frames 0))
                 REPLY_CODE_NO_CONSUMERS ''No route'' (p_exchange pending1) (p_routingKey pending1))
            = Some (Inr ?s2)"
    using b n by (simp add: sendBuilt_def)
  have n2: "channelNumber (chanHeap ?s2 0) = 1"
    using n by (simp add: setChannel_def)
  have f2: "frameMax (connHeap ?s2 ''c1'') = 8"
    using f by (simp add: setChannel_def)
  have "completeMessage ''u'' 0 broker_small_frames ''c1'' 0
        = sendMessageFrames ?s2 ''c1'' (channelNumber (chanHeap ?s2 0))
            (concat (bodyChunks pending1)) (p_properties pending1)"
    using m by (simp only: completeMessage_unroutable [OF p r] sb and_then_def if_True
        option.case sum.case)
  then have "completeMessage ''u'' 0 broker_small_frames ''c1'' 0 = None"
    by (simp only: n2 c s [OF f2])
  with t f p m r show ?thesis by simp
qed

subsection \<open>Big-endian writes and reads\<close>

lemma length_writeUIntBE [simp]: "length (writeUIntBE n v) = n"
  by (induction n arbitrary: v) simp_all

lemma length_writeIntBE [simp]: "length (writeIntBE n v) = n"
  by (simp add: writeIntBE_def)








lemma take_drop_mid: "length bs = n \<Longrightarrow> take n (drop (length pre) (pre @ bs @ post)) = bs"
  by simp







subsection \<open>Strings and slices\<close>




lemma length_utf8_bytes [simp]: "length (utf8_bytes s) = length s"
  by (simp add: utf8_bytes_def)

subsection \<open>Reading behind the type byte\<close>










subsection \<open>Decoding an encoded scalar\<close>


















subsection \<open>Decoding an encoded value\<close>










subsection \<open>The round trip of the field-table codec (claim C9)\<close>





text \<open>
  Two more values that the decoder gives back changed: \<^verbatim>\<open>undefined\<close> comes back as
  \<^verbatim>\<open>null\<close> and \<open>-0\<close> as \<open>0\<close>. A \<^verbatim>\<open>Date\<close> before the epoch is not encoded at all:
  \<^verbatim>\<open>writeBigUInt64BE\<close> throws.
\<close>

lemma undefined_and_negative_zero:
  "encodeFieldTable [(''u'', FUndefined), (''z'', FNumber negative_zero)]
     = Inr [0, 0, 0, 7, 1, 0x75, 0x56, 1, 0x7A, 0x62, 0]
   \<and> readFieldTable 4 [0, 0, 0, 7, 1, 0x75, 0x56, 1, 0x7A, 0x62, 0] 0
       = Some (Inr ([(''u'', FNull), (''z'', FNumber 0)], 11))
   \<and> encodeFieldTable [(''t'', FDate (- 1))] = Inl RangeError"
  by code_simp

end
